theory Spec2Isabelle
  imports Complex_Main "HOL-Library.Signed_Division" "HOL-Library.Log_Nat"
begin

section \<open>JavaScript numbers\<close>

text \<open>
  Amounts are JavaScript numbers and SQLite \<^verbatim>\<open>REAL\<close> values: IEEE 754 binary64.
  A finite double is written as the rational it denotes. Every sum, difference, product
  and quotient, in JavaScript and inside an SQL \<^verbatim>\<open>UPDATE\<close> alike, is the exact
  result rounded to the nearest double, ties to the even significand (\<open>fl\<close>);
  comparisons and \<^verbatim>\<open>Math.min\<close> are exact. \<open>fl\<close> rounds to 53 significant bits,
  with the fixed spacing \<open>pow2 (- 1074)\<close> below \<open>pow2 (- 1021)\<close> (subnormal numbers).
  A decimal literal or JSON number such as \<^verbatim>\<open>9.39\<close> is the double \<open>fl (939 / 100)\<close>.
  The values \<^verbatim>\<open>NaN\<close> and \<^verbatim>\<open>Infinity\<close> are not numbers of this development:
  results beyond the largest double and quotients by zero are outside it (the one place
  where the code can divide zero by zero on finite data, in the withdrawal loop, is
  written out there).
\<close>

type_synonym number = rat

definition pow2 :: "int \<Rightarrow> rat" where
  "pow2 e = (if 0 \<le> e then 2 ^ nat e else 1 / 2 ^ nat (- e))"

text \<open>For \<open>x > 0\<close>, the exponent \<open>e\<close> with \<open>pow2 e \<le> x < pow2 (e + 1)\<close>.\<close>

definition floor_log2 :: "rat \<Rightarrow> int" where
  "floor_log2 x =
     (let (p, q) = quotient_of x; d = bitlen p - bitlen q
      in if pow2 d \<le> x then d else d - 1)"

text \<open>The nearest integer, a tie going to the even one.\<close>

definition rne :: "rat \<Rightarrow> int" where
  "rne y =
     (let f = \<lfloor>y\<rfloor>; d = y - of_int f
      in if d < 1 / 2 then f else if 1 / 2 < d then f + 1
         else if even f then f else f + 1)"

definition fl :: "rat \<Rightarrow> number" where
  "fl x =
     (if x = 0 then 0
      else let u = pow2 (max (floor_log2 \<bar>x\<bar>) (- 1022) - 52)
           in of_int (rne (x / u)) * u)"

definition fadd :: "number \<Rightarrow> number \<Rightarrow> number" where
  "fadd a b = fl (a + b)"

definition fsub :: "number \<Rightarrow> number \<Rightarrow> number" where
  "fsub a b = fl (a - b)"

definition fmul :: "number \<Rightarrow> number \<Rightarrow> number" where
  "fmul a b = fl (a * b)"

definition fdiv :: "number \<Rightarrow> number \<Rightarrow> number" where
  "fdiv a b = fl (a / b)"

section \<open>Data model\<close>

text \<open>
  The persisted state is the SQLite database of \<^verbatim>\<open>db/index.ts\<close>: one list of
  rows per table and the single vault row. Timestamps (\<^verbatim>\<open>created_at\<close>,
  \<^verbatim>\<open>updated_at\<close>) and log output are left out. The vault row is created by
  \<^verbatim>\<open>migrate()\<close> before anything else runs and is never deleted, so it is a plain
  field of the state.
\<close>

type_synonym usdc = number

datatype error =
    Error string
  | SqliteError string
  | ReferenceError string
  | SyntaxError string

datatype AgentStatus = active | suspended | delinquent | closed
datatype KYAStatus = kya_pending | kya_approved | kya_rejected | kya_review
datatype MerchantStatus = m_active | m_suspended | m_blocked
datatype TransactionStatus =
    pending_approval | approved | signing | broadcasting | confirmed | failed | rejected
datatype TransactionType = agent_to_merchant | agent_to_agent | repayment

record VaultRow =
  total_deposits_usdc :: usdc
  total_lent_usdc :: usdc
  total_fees_earned_usdc :: usdc
  total_shares :: number

record LenderPositionRow =
  lp_id :: string
  lender_address :: string
  deposited_usdc :: usdc
  shares_owned :: number
  earned_yield_usdc :: usdc
  deposit_tx_hash :: string

record AgentRow =
  ag_id :: string
  wallet_address :: string
  credit_limit_usdc :: usdc
  used_credit_usdc :: usdc
  ag_status :: AgentStatus
  kya_status :: KYAStatus
  risk_score :: int
  mpc_server_shard_enc :: string

record MerchantRow =
  m_id :: string
  m_status :: MerchantStatus
  fee_bps :: number
  sanctions_clean :: bool

datatype FailureReason =
    InsufficientCredit usdc usdc
  | RecipientSanctioned string "string option"
  | MerchantNotFound string
  | MerchantNotActive string MerchantStatus
  | MerchantFailedSanctions string
  | RecipientAgentNotFoundOrInactive string
  | KyaNotApproved KYAStatus
  | AgentNotActive AgentStatus
  | RiskScoreExceeds int

record PermissionCheckResult =
  creditCheck :: bool
  sanctionsCheck :: bool
  merchantCheck :: bool
  kyaCheck :: bool
  riskCheck :: bool
  allPassed :: bool
  failureReasons :: "FailureReason list"

record TransactionRow =
  tx_id :: string
  agent_id :: string
  merchant_id :: "string option"
  recipient_agent_id :: "string option"
  amount_usdc :: usdc
  fee_usdc :: usdc
  net_amount_usdc :: usdc
  tx_status :: TransactionStatus
  tx_type :: TransactionType
  tx_hash :: "string option"
  recipient_address :: string
  memo :: "string option"
  permission_checks :: PermissionCheckResult
  idempotency_key :: string
  settled :: bool

record RepaymentRow =
  rp_id :: string
  rp_agent_id :: string
  rp_amount_usdc :: usdc
  rp_tx_hash :: string

record SanctionedAddressRow =
  sa_address :: string
  sa_source :: string

record db =
  agents :: "AgentRow list"
  merchants :: "MerchantRow list"
  transactions :: "TransactionRow list"
  repayments :: "RepaymentRow list"
  vault :: VaultRow
  lender_positions :: "LenderPositionRow list"
  sanctioned_addresses :: "SanctionedAddressRow list"

type_synonym 'a result = "(error + 'a) \<times> db"

section \<open>Vault engine (\<^verbatim>\<open>vault/index.ts\<close>)\<close>

record Vault =
  totalDepositsUsdc :: usdc
  totalLentUsdc :: usdc
  availableLiquidityUsdc :: usdc
  totalFeesEarnedUsdc :: usdc
  totalShares :: number

text \<open>\<^verbatim>\<open>getVaultState\<close>; the reporting field \<^verbatim>\<open>currentApyBps\<close> is left out.\<close>

definition getVaultState :: "db \<Rightarrow> Vault" where
  "getVaultState d =
     (let raw = vault d;
          totalDeposits = total_deposits_usdc raw;
          totalLent = total_lent_usdc raw
      in \<lparr> totalDepositsUsdc = totalDeposits,
           totalLentUsdc = totalLent,
           availableLiquidityUsdc = fsub totalDeposits totalLent,
           totalFeesEarnedUsdc = total_fees_earned_usdc raw,
           totalShares = total_shares raw \<rparr>)"

definition getSharePrice :: "db \<Rightarrow> number" where
  "getSharePrice d =
     (let v = getVaultState d
      in if totalShares v = 0 then 1 else fdiv (totalDepositsUsdc v) (totalShares v))"

text \<open>
  The prepared statements of \<^verbatim>\<open>vaultQueries\<close>; the sums and differences are
  computed by SQLite on \<^verbatim>\<open>REAL\<close> values.
\<close>

definition vault_updateDeposit :: "usdc \<Rightarrow> number \<Rightarrow> db \<Rightarrow> db" where
  "vault_updateDeposit a s d =
     d\<lparr>vault := (vault d)\<lparr>total_deposits_usdc := fadd (total_deposits_usdc (vault d)) a,
                           total_shares := fadd (total_shares (vault d)) s\<rparr>\<rparr>"

definition vault_updateLent :: "usdc \<Rightarrow> db \<Rightarrow> db" where
  "vault_updateLent a d =
     d\<lparr>vault := (vault d)\<lparr>total_lent_usdc := fadd (total_lent_usdc (vault d)) a\<rparr>\<rparr>"

definition vault_addFees :: "usdc \<Rightarrow> usdc \<Rightarrow> db \<Rightarrow> db" where
  "vault_addFees f g d =
     d\<lparr>vault := (vault d)\<lparr>total_fees_earned_usdc := fadd (total_fees_earned_usdc (vault d)) f,
                           total_deposits_usdc := fadd (total_deposits_usdc (vault d)) g\<rparr>\<rparr>"

definition vault_updateWithdraw :: "usdc \<Rightarrow> number \<Rightarrow> db \<Rightarrow> db" where
  "vault_updateWithdraw a s d =
     d\<lparr>vault := (vault d)\<lparr>total_deposits_usdc := fsub (total_deposits_usdc (vault d)) a,
                           total_shares := fsub (total_shares (vault d)) s\<rparr>\<rparr>"

definition vault_returnLent :: "usdc \<Rightarrow> db \<Rightarrow> db" where
  "vault_returnLent a d =
     d\<lparr>vault := (vault d)\<lparr>total_lent_usdc := fsub (total_lent_usdc (vault d)) a\<rparr>\<rparr>"

text \<open>\<^verbatim>\<open>String.prototype.toLowerCase\<close> on ASCII addresses.\<close>

definition toLowerCase :: "string \<Rightarrow> string" where
  "toLowerCase s =
     map (\<lambda>c. let n = (of_char c :: nat) in if 65 \<le> n \<and> n \<le> 90 then char_of (n + 32) else c) s"

text \<open>
  \<^verbatim>\<open>lenderQueries\<close>. The table is kept in the order of
  \<^verbatim>\<open>getByAddress\<close> (\<^verbatim>\<open>ORDER BY created_at DESC\<close>): a new position is
  put in front. \<^verbatim>\<open>create\<close> fails on a duplicate primary key.
\<close>

definition lender_create :: "string \<Rightarrow> string \<Rightarrow> usdc \<Rightarrow> number \<Rightarrow> string \<Rightarrow> db \<Rightarrow> error + db" where
  "lender_create pid addr a s h d =
     (if pid \<in> set (map lp_id (lender_positions d))
      then Inl (SqliteError ''UNIQUE constraint failed: lender_positions.id'')
      else Inr (d\<lparr>lender_positions :=
                   \<lparr> lp_id = pid, lender_address = addr, deposited_usdc = a, shares_owned = s,
                     earned_yield_usdc = 0, deposit_tx_hash = h \<rparr> # lender_positions d\<rparr>))"

definition lender_getByAddress :: "string \<Rightarrow> db \<Rightarrow> LenderPositionRow list" where
  "lender_getByAddress addr d = filter (\<lambda>p. lender_address p = addr) (lender_positions d)"

definition lender_updateShares :: "number \<Rightarrow> usdc \<Rightarrow> string \<Rightarrow> db \<Rightarrow> db" where
  "lender_updateShares b y pid d =
     d\<lparr>lender_positions :=
         map (\<lambda>p. if lp_id p = pid
                  then p\<lparr>shares_owned := fsub (shares_owned p) b,
                         earned_yield_usdc := fadd (earned_yield_usdc p) y\<rparr>
                  else p) (lender_positions d)\<rparr>"

text \<open>
  \<^verbatim>\<open>processDeposit\<close>. The position id is the \<^verbatim>\<open>uuid()\<close> drawn by the
  code, passed in. The insert and the vault update are one database transaction: an
  error leaves the state as it was. A share price of 0 (shares outstanding over zero
  deposits) makes the JavaScript quotient infinite, which is not a number of this
  development; the quotient written here is 0 in that case, and nothing below is stated
  about it.
\<close>

definition processDeposit :: "string \<Rightarrow> string \<Rightarrow> usdc \<Rightarrow> string \<Rightarrow> db \<Rightarrow> LenderPositionRow result" where
  "processDeposit positionId lenderAddress amountUsdc depositTxHash d =
     (let sharePrice = getSharePrice d;
          sharesIssued = fdiv amountUsdc sharePrice
      in case lender_create positionId (toLowerCase lenderAddress) amountUsdc sharesIssued
                depositTxHash d of
           Inl e \<Rightarrow> (Inl e, d)
         | Inr d1 \<Rightarrow>
             (Inr \<lparr> lp_id = positionId, lender_address = toLowerCase lenderAddress,
                    deposited_usdc = amountUsdc, shares_owned = sharesIssued,
                    earned_yield_usdc = 0, deposit_tx_hash = depositTxHash \<rparr>,
              vault_updateDeposit amountUsdc sharesIssued d1))"

text \<open>
  The loop of \<^verbatim>\<open>processWithdrawal\<close> over the lender's positions, with its
  accumulators \<^verbatim>\<open>remainingShares\<close> and \<^verbatim>\<open>totalOriginalValue\<close>. A position
  with \<^verbatim>\<open>shares_owned = 0\<close> that is reached with shares remaining burns
  \<^verbatim>\<open>min(0, remaining) = 0\<close> and divides \<^verbatim>\<open>0 / 0\<close>: the yield is NaN, which
  SQLite binds as NULL, and the update fails on the NOT NULL column.
\<close>

fun burnPositions ::
  "number \<Rightarrow> LenderPositionRow list \<Rightarrow> number \<Rightarrow> usdc \<Rightarrow> db \<Rightarrow> error + (number \<times> usdc \<times> db)" where
  "burnPositions sharePrice [] remainingShares totalOriginalValue d =
     Inr (remainingShares, totalOriginalValue, d)"
| "burnPositions sharePrice (pos # rest) remainingShares totalOriginalValue d =
     (if remainingShares \<le> 0 then Inr (remainingShares, totalOriginalValue, d)
      else if shares_owned pos = 0
      then Inl (SqliteError ''NOT NULL constraint failed: lender_positions.earned_yield_usdc'')
      else
        let burnFromThis = min (shares_owned pos) remainingShares;
            originalValue = fmul (fdiv burnFromThis (shares_owned pos)) (deposited_usdc pos);
            yieldForThis = fsub (fmul burnFromThis sharePrice) originalValue
        in burnPositions sharePrice rest (fsub remainingShares burnFromThis)
             (fadd totalOriginalValue originalValue)
             (lender_updateShares burnFromThis yieldForThis (lp_id pos) d))"

record WithdrawalResult =
  wr_amountUsdc :: usdc
  wr_yieldEarned :: usdc

definition processWithdrawal :: "string \<Rightarrow> number \<Rightarrow> db \<Rightarrow> WithdrawalResult result" where
  "processWithdrawal lenderAddress sharesToBurn d =
     (let v = getVaultState d;
          sharePrice = getSharePrice d;
          amountUsdc = fmul sharesToBurn sharePrice
      in if amountUsdc > availableLiquidityUsdc v
         then (Inl (Error ''Insufficient vault liquidity''), d)
         else
           case burnPositions sharePrice (lender_getByAddress (toLowerCase lenderAddress) d)
                  sharesToBurn 0 d of
             Inl e \<Rightarrow> (Inl e, d)
           | Inr (remainingShares, totalOriginalValue, d1) \<Rightarrow>
               if remainingShares > fl (1 / 1000)
               then (Inl (Error ''Insufficient shares''), d)
               else (Inr \<lparr> wr_amountUsdc = amountUsdc,
                           wr_yieldEarned = fsub amountUsdc totalOriginalValue \<rparr>,
                     vault_updateWithdraw amountUsdc sharesToBurn d1))"

definition processFeeIntoVault :: "usdc \<Rightarrow> db \<Rightarrow> db" where
  "processFeeIntoVault feeUsdc d = (if feeUsdc \<le> 0 then d else vault_addFees feeUsdc feeUsdc d)"

definition reserveLiquidity :: "usdc \<Rightarrow> db \<Rightarrow> unit result" where
  "reserveLiquidity amountUsdc d =
     (let v = getVaultState d
      in if amountUsdc > availableLiquidityUsdc v
         then (Inl (Error ''Insufficient vault liquidity''), d)
         else (Inr (), vault_updateLent amountUsdc d))"

definition returnLiquidity :: "usdc \<Rightarrow> db \<Rightarrow> db" where
  "returnLiquidity amountUsdc d = vault_returnLent amountUsdc d"

section \<open>Queries on agents, merchants, transactions and repayments (\<^verbatim>\<open>db/index.ts\<close>)\<close>

definition agent_getById :: "string \<Rightarrow> db \<Rightarrow> AgentRow option" where
  "agent_getById i d = find (\<lambda>a. ag_id a = i) (agents d)"

definition agent_updateCredit :: "usdc \<Rightarrow> string \<Rightarrow> db \<Rightarrow> db" where
  "agent_updateCredit u i d =
     d\<lparr>agents := map (\<lambda>a. if ag_id a = i then a\<lparr>used_credit_usdc := u\<rparr> else a) (agents d)\<rparr>"

definition agent_updateStatus :: "AgentStatus \<Rightarrow> string \<Rightarrow> db \<Rightarrow> db" where
  "agent_updateStatus st i d =
     d\<lparr>agents := map (\<lambda>a. if ag_id a = i then a\<lparr>ag_status := st\<rparr> else a) (agents d)\<rparr>"

definition agent_updateLimit :: "usdc \<Rightarrow> string \<Rightarrow> db \<Rightarrow> db" where
  "agent_updateLimit l i d =
     d\<lparr>agents := map (\<lambda>a. if ag_id a = i then a\<lparr>credit_limit_usdc := l\<rparr> else a) (agents d)\<rparr>"

definition merchant_getById :: "string \<Rightarrow> db \<Rightarrow> MerchantRow option" where
  "merchant_getById i d = find (\<lambda>m. m_id m = i) (merchants d)"

definition tx_getByIdempotencyKey :: "string \<Rightarrow> db \<Rightarrow> TransactionRow option" where
  "tx_getByIdempotencyKey k d = find (\<lambda>t. idempotency_key t = k) (transactions d)"

text \<open>
  \<^verbatim>\<open>txQueries.create\<close>, with the constraints of the \<^verbatim>\<open>transactions\<close> table:
  primary key \<^verbatim>\<open>id\<close>, \<^verbatim>\<open>idempotency_key UNIQUE\<close>, and the foreign keys
  \<^verbatim>\<open>agent_id REFERENCES agents(id)\<close>, \<^verbatim>\<open>merchant_id REFERENCES merchants(id)\<close>,
  \<^verbatim>\<open>recipient_agent_id REFERENCES agents(id)\<close>, which are enforced
  (\<^verbatim>\<open>db.pragma("foreign_keys = ON")\<close>). A violated constraint throws and inserts
  nothing.
\<close>

definition fk_ok :: "string option \<Rightarrow> string list \<Rightarrow> bool" where
  "fk_ok r ks = (case r of None \<Rightarrow> True | Some k \<Rightarrow> k \<in> set ks)"

definition tx_create :: "TransactionRow \<Rightarrow> db \<Rightarrow> error + db" where
  "tx_create row d =
     (if tx_id row \<in> set (map tx_id (transactions d))
      then Inl (SqliteError ''UNIQUE constraint failed: transactions.id'')
      else if idempotency_key row \<in> set (map idempotency_key (transactions d))
      then Inl (SqliteError ''UNIQUE constraint failed: transactions.idempotency_key'')
      else if \<not> (agent_id row \<in> set (map ag_id (agents d))
                \<and> fk_ok (merchant_id row) (map m_id (merchants d))
                \<and> fk_ok (recipient_agent_id row) (map ag_id (agents d)))
      then Inl (SqliteError ''FOREIGN KEY constraint failed'')
      else Inr (d\<lparr>transactions := transactions d @ [row]\<rparr>))"

definition tx_updateStatus :: "TransactionStatus \<Rightarrow> string \<Rightarrow> db \<Rightarrow> db" where
  "tx_updateStatus st i d =
     d\<lparr>transactions :=
         map (\<lambda>t. if tx_id t = i
                  then t\<lparr>tx_status := st, settled := (if st = confirmed then True else settled t)\<rparr>
                  else t) (transactions d)\<rparr>"

definition tx_updateTxHash :: "string \<Rightarrow> string \<Rightarrow> db \<Rightarrow> db" where
  "tx_updateTxHash h i d =
     d\<lparr>transactions := map (\<lambda>t. if tx_id t = i then t\<lparr>tx_hash := Some h\<rparr> else t) (transactions d)\<rparr>"

definition repayment_create :: "RepaymentRow \<Rightarrow> db \<Rightarrow> error + db" where
  "repayment_create row d =
     (if rp_id row \<in> set (map rp_id (repayments d))
      then Inl (SqliteError ''UNIQUE constraint failed: repayments.id'')
      else if rp_agent_id row \<notin> set (map ag_id (agents d))
      then Inl (SqliteError ''FOREIGN KEY constraint failed'')
      else Inr (d\<lparr>repayments := repayments d @ [row]\<rparr>))"

section \<open>External collaborators and configuration\<close>

text \<open>
  What the payment engine consumes from outside is an input of the model: the
  \<^verbatim>\<open>uuid()\<close> it draws, the AES decryption of the stored server shard
  with the configured key, and the chain provider registered for \<^verbatim>\<open>"base"\<close>:
  none, the simulated \<^verbatim>\<open>BaseChain\<close> (no \<^verbatim>\<open>transferUsdcMPC\<close> method; the
  hash the engine then computes is given), or \<^verbatim>\<open>BaseChainLive\<close> with what its
  \<^verbatim>\<open>transferUsdcMPC\<close> answers. \<^verbatim>\<open>MERCHANT_FEE_BPS\<close> and
  \<^verbatim>\<open>MAX_CREDIT_LIMIT_USDC\<close> are read from the process configuration.
\<close>

record ChainTransferResult =
  ctr_txHash :: string
  ctr_confirmed :: bool

datatype ChainProvider =
    NotRegistered
  | BaseChain string
  | BaseChainLive "int \<Rightarrow> string \<Rightarrow> usdc \<Rightarrow> error + ChainTransferResult"

record Env =
  uuid :: string
  decryptServerShard :: "string \<Rightarrow> error + string"
  chain_base :: ChainProvider
  MERCHANT_FEE_BPS :: number
  MAX_CREDIT_LIMIT_USDC :: usdc

section \<open>Sanctions screening (\<^verbatim>\<open>compliance/index.ts\<close>)\<close>

text \<open>
  \<^verbatim>\<open>sanctionsQueries.check\<close> and \<^verbatim>\<open>sanctionsQueries.add\<close>
  (\<^verbatim>\<open>INSERT OR IGNORE\<close> on the primary key \<^verbatim>\<open>address\<close>), the two constant
  lists of the module, and \<^verbatim>\<open>screenAddress\<close>. Of the object it returns, the
  fields \<^verbatim>\<open>isSanctioned\<close> and \<^verbatim>\<open>source\<close> are kept (the others are fixed texts
  that nothing reads). An address of the list of sanctioned entities is written to the
  table when it is screened.
\<close>

definition sanctions_check :: "string \<Rightarrow> db \<Rightarrow> SanctionedAddressRow option" where
  "sanctions_check a d = find (\<lambda>r. sa_address r = a) (sanctioned_addresses d)"

definition sanctions_add :: "string \<Rightarrow> string \<Rightarrow> db \<Rightarrow> db" where
  "sanctions_add a src d =
     (if a \<in> set (map sa_address (sanctioned_addresses d)) then d
      else d\<lparr>sanctioned_addresses :=
               sanctioned_addresses d @ [\<lparr> sa_address = a, sa_source = src \<rparr>]\<rparr>)"

definition KNOWN_MIXER_CONTRACTS :: "string list" where
  "KNOWN_MIXER_CONTRACTS =
     map toLowerCase
       [''0xd90e2f925da726b50c4ed8d0fb90ad053324f31b'',
        ''0x722122df12d4e14e13ac3b6895a86e84145b6967'',
        ''0xdd4c48c0b24039969fc16d1cdf626eab821d3384'',
        ''0xd4b88df4d29f5cedd6857912842cff3b20c8cfa3'',
        ''0xfd8610d20aa15b7b2e3be39b396a1bc3516c7144'']"

definition KNOWN_SANCTIONED_ENTITIES :: "string list" where
  "KNOWN_SANCTIONED_ENTITIES =
     map toLowerCase
       [''0x8589427373d6d84e98730d7795d8f6f8731fda16'',
        ''0xd882cfc20f52f2599d84b8e8d58c7fb62cfe344b'',
        ''0x7f367cc41522ce07553e823bf3be79a889debe1b'']"

record ScreenResult =
  isSanctioned :: bool
  source :: "string option"

definition screenAddress :: "string \<Rightarrow> db \<Rightarrow> ScreenResult \<times> db" where
  "screenAddress address d =
     (let normalizedAddress = toLowerCase address
      in case sanctions_check normalizedAddress d of
           Some localResult \<Rightarrow>
             (\<lparr> isSanctioned = True, source = Some (sa_source localResult) \<rparr>, d)
         | None \<Rightarrow>
             if normalizedAddress \<in> set KNOWN_SANCTIONED_ENTITIES
             then (\<lparr> isSanctioned = True, source = Some ''ofac-sdn'' \<rparr>,
                   sanctions_add normalizedAddress ''ofac-sdn'' d)
             else if normalizedAddress \<in> set KNOWN_MIXER_CONTRACTS
             then (\<lparr> isSanctioned = True, source = Some ''mixer-list'' \<rparr>, d)
             else (\<lparr> isSanctioned = False, source = None \<rparr>, d))"

section \<open>Permission checks (\<^verbatim>\<open>compliance/index.ts\<close>)\<close>

record Agent =
  a_id :: string
  walletAddress :: string
  creditLimitUsdc :: usdc
  usedCreditUsdc :: usdc
  availableCreditUsdc :: usdc
  status :: AgentStatus
  kyaStatus :: KYAStatus
  riskScore :: int

text \<open>JavaScript truthiness of an optional string, and \<^verbatim>\<open>x || null\<close>.\<close>

definition truthy :: "string option \<Rightarrow> bool" where
  "truthy x = (case x of None \<Rightarrow> False | Some s \<Rightarrow> s \<noteq> [])"

definition orNull :: "string option \<Rightarrow> string option" where
  "orNull x = (if truthy x then x else None)"

definition merchantRecipientCheck ::
  "string option \<Rightarrow> string option \<Rightarrow> db \<Rightarrow> bool \<times> FailureReason list" where
  "merchantRecipientCheck merchantId recipientAgentId d =
     (if truthy merchantId then
        (case merchant_getById (the merchantId) d of
           None \<Rightarrow> (False, [MerchantNotFound (the merchantId)])
         | Some merchant \<Rightarrow>
             if m_status merchant = m_active \<and> sanctions_clean merchant then (True, [])
             else if m_status merchant \<noteq> m_active
             then (False, [MerchantNotActive (the merchantId) (m_status merchant)])
             else (False, [MerchantFailedSanctions (the merchantId)]))
      else if truthy recipientAgentId then
        (case agent_getById (the recipientAgentId) d of
           None \<Rightarrow> (False, [RecipientAgentNotFoundOrInactive (the recipientAgentId)])
         | Some recipientAgent \<Rightarrow>
             if ag_status recipientAgent = active then (True, [])
             else (False, [RecipientAgentNotFoundOrInactive (the recipientAgentId)]))
      else (True, []))"

text \<open>
  \<^verbatim>\<open>runPermissionChecks\<close>. The screening of the recipient may write the
  sanctions table, so the verdict comes with the state.
\<close>

definition runPermissionChecks ::
  "Agent \<Rightarrow> string \<Rightarrow> usdc \<Rightarrow> string option \<Rightarrow> string option \<Rightarrow> db
    \<Rightarrow> PermissionCheckResult \<times> db" where
  "runPermissionChecks agent recipientAddress amountUsdc merchantId recipientAgentId d =
     (let availableCredit = fsub (creditLimitUsdc agent) (usedCreditUsdc agent);
          credit = (amountUsdc \<le> availableCredit);
          r1 = (if credit then [] else [InsufficientCredit amountUsdc availableCredit]);
          (recipientSanctions, d1) = screenAddress recipientAddress d;
          sanctions = (\<not> isSanctioned recipientSanctions);
          r2 = (if sanctions then []
                else [RecipientSanctioned recipientAddress (source recipientSanctions)]);
          (mcheck, r3) = merchantRecipientCheck merchantId recipientAgentId d1;
          kya = (kyaStatus agent = kya_approved);
          r4 = (if kya then [] else [KyaNotApproved (kyaStatus agent)]);
          risk = (status agent = active \<and> riskScore agent \<le> 70);
          r5 = (if risk then []
                else if status agent \<noteq> active then [AgentNotActive (status agent)]
                else [RiskScoreExceeds (riskScore agent)])
      in (\<lparr> creditCheck = credit, sanctionsCheck = sanctions, merchantCheck = mcheck,
            kyaCheck = kya, riskCheck = risk,
            allPassed = (credit \<and> sanctions \<and> mcheck \<and> kya \<and> risk),
            failureReasons = r1 @ r2 @ r3 @ r4 @ r5 \<rparr>, d1))"

section \<open>Payment engine (\<^verbatim>\<open>core/payment.ts\<close>)\<close>

record PaymentRequest =
  agentId :: string
  recipientAddress :: string
  amountUsdc :: usdc
  req_memo :: "string option"
  merchantId :: "string option"
  recipientAgentId :: "string option"
  agentPartialSignature :: "string option"
  idempotencyKey :: string

text \<open>
  The result object. An optional key that an object literal does not write is absent
  from the response (\<open>None\<close>). The key \<^verbatim>\<open>txHash\<close> is written by the replay
  branch with the stored column, which is \<^verbatim>\<open>null\<close> (\<open>Some None\<close>) until a hash is
  recorded, and a response with \<^verbatim>\<open>"txHash":null\<close> differs from one without the key.
\<close>

record PaymentResult =
  transactionId :: string
  res_status :: TransactionStatus
  permissionChecks :: PermissionCheckResult
  feeUsdc :: usdc
  netAmountUsdc :: usdc
  mpcSignatureId :: "string option"
  txHash :: "string option option"
  awaitingAgentSignature :: "bool option"

definition mkAgent :: "AgentRow \<Rightarrow> Agent" where
  "mkAgent agentRaw =
     \<lparr> a_id = ag_id agentRaw,
       walletAddress = wallet_address agentRaw,
       creditLimitUsdc = credit_limit_usdc agentRaw,
       usedCreditUsdc = used_credit_usdc agentRaw,
       availableCreditUsdc = fsub (credit_limit_usdc agentRaw) (used_credit_usdc agentRaw),
       status = ag_status agentRaw,
       kyaStatus = kya_status agentRaw,
       riskScore = risk_score agentRaw \<rparr>"

text \<open>
  \<^verbatim>\<open>BigInt("0x" + hex)\<close>: the value of a non-empty string of hexadecimal digits
  (trailing ASCII white space is trimmed), a SyntaxError otherwise.
\<close>

definition hexDigit :: "char \<Rightarrow> nat option" where
  "hexDigit c =
     (let n = (of_char c :: nat)
      in if 48 \<le> n \<and> n \<le> 57 then Some (n - 48)
         else if 97 \<le> n \<and> n \<le> 102 then Some (n - 87)
         else if 65 \<le> n \<and> n \<le> 70 then Some (n - 55)
         else None)"

fun hexValue :: "nat \<Rightarrow> string \<Rightarrow> nat option" where
  "hexValue acc [] = Some acc"
| "hexValue acc (c # cs) =
     (case hexDigit c of None \<Rightarrow> None | Some v \<Rightarrow> hexValue (16 * acc + v) cs)"

definition isWhiteSpace :: "char \<Rightarrow> bool" where
  "isWhiteSpace c = ((of_char c :: nat) \<in> {9, 10, 11, 12, 13, 32})"

definition trimEnd :: "string \<Rightarrow> string" where
  "trimEnd s = rev (dropWhile isWhiteSpace (rev s))"

definition bigIntOfHex :: "string \<Rightarrow> error + int" where
  "bigIntOfHex h =
     (let t = trimEnd h
      in if t = [] then Inl (SyntaxError ''Cannot convert to a BigInt'')
         else case hexValue 0 t of
                None \<Rightarrow> Inl (SyntaxError ''Cannot convert to a BigInt'')
              | Some v \<Rightarrow> Inr (int v))"

text \<open>The order of the secp256k1 group, and the BigInt remainder \<^verbatim>\<open>%\<close> (truncating).\<close>

definition curve_n :: int where
  "curve_n = 0xFFFFFFFFFFFFFFFFFFFFFFFFFFFFFFFEBAAEDCE6AF48A03BBFD25E8CD0364141"

definition reconstructKey :: "int \<Rightarrow> int \<Rightarrow> int" where
  "reconstructKey serverBig agentBig = ((serverBig + agentBig) smod curve_n + curve_n) smod curve_n"

text \<open>
  The \<^verbatim>\<open>try\<close> block of \<^verbatim>\<open>processPayment\<close> (steps 9 to 11). It is entered after
  the reservation and the debit. Its last statement, the \<^verbatim>\<open>return\<close> of the confirmed
  result, evaluates \<^verbatim>\<open>signResult.signatureId\<close>; no \<^verbatim>\<open>signResult\<close> is declared in
  the function or the module, so the evaluation throws a ReferenceError, after the hash,
  the status \<^verbatim>\<open>confirmed\<close> and the fee have been written. The message hash computed
  at the start of the block is not used by anything that follows and is left out.
\<close>

definition processPayment_try ::
  "Env \<Rightarrow> PaymentRequest \<Rightarrow> AgentRow \<Rightarrow> string \<Rightarrow> PermissionCheckResult \<Rightarrow> usdc \<Rightarrow> usdc \<Rightarrow> db
    \<Rightarrow> PaymentResult result" where
  "processPayment_try env req agentRaw txId permChecks fee net d =
     (if \<not> truthy (agentPartialSignature req) then
        (Inr \<lparr> transactionId = txId, res_status = signing, permissionChecks = permChecks,
               feeUsdc = fee, netAmountUsdc = net, mpcSignatureId = None, txHash = None,
               awaitingAgentSignature = Some True \<rparr>,
         tx_updateStatus signing txId d)
      else
        let d1 = tx_updateStatus signing txId d
        in case decryptServerShard env (mpc_server_shard_enc agentRaw) of
             Inl e \<Rightarrow> (Inl e, d1)
           | Inr serverShardHex \<Rightarrow>
        (case bigIntOfHex serverShardHex of
             Inl e \<Rightarrow> (Inl e, d1)
           | Inr serverBig \<Rightarrow>
        (case bigIntOfHex (the (agentPartialSignature req)) of
             Inl e \<Rightarrow> (Inl e, d1)
           | Inr agentBig \<Rightarrow>
        (let fullKeyBig = reconstructKey serverBig agentBig;
             d2 = tx_updateStatus broadcasting txId d1;
             settle = (\<lambda>h. (Inl (ReferenceError ''signResult is not defined''),
                            processFeeIntoVault fee
                              (tx_updateStatus confirmed txId (tx_updateTxHash h txId d2))))
         in case chain_base env of
              NotRegistered \<Rightarrow> (Inl (Error ''Chain base not registered''), d2)
            | BaseChain simulatedHash \<Rightarrow> settle simulatedHash
            | BaseChainLive transferUsdcMPC \<Rightarrow>
                (case transferUsdcMPC fullKeyBig (recipientAddress req) net of
                   Inl e \<Rightarrow> (Inl e, d2)
                 | Inr r \<Rightarrow>
                     if \<not> ctr_confirmed r
                     then (Inl (Error ''Transaction failed onchain''), d2)
                     else settle (ctr_txHash r))))))"

text \<open>
  Steps 7 and 8 of \<^verbatim>\<open>processPayment\<close> with the \<^verbatim>\<open>try\<close>/\<^verbatim>\<open>catch\<close> around
  steps 9 to 11: reserve the net amount, debit the gross amount, run the block, and on
  any error from the block mark the transaction failed, return the net amount and write
  back the usage read at the start, then rethrow.
\<close>

definition processPayment_reserve ::
  "Env \<Rightarrow> PaymentRequest \<Rightarrow> AgentRow \<Rightarrow> string \<Rightarrow> PermissionCheckResult \<Rightarrow> usdc \<Rightarrow> usdc \<Rightarrow> db
    \<Rightarrow> PaymentResult result" where
  "processPayment_reserve env req agentRaw txId permChecks fee net d1 =
     (case reserveLiquidity net d1 of
        (Inl e, _) \<Rightarrow> (Inl (Error ''Vault liquidity error''), tx_updateStatus failed txId d1)
      | (Inr _, d2) \<Rightarrow>
          let newUsedCredit = fadd (usedCreditUsdc (mkAgent agentRaw)) (amountUsdc req);
              d3 = agent_updateCredit newUsedCredit (agentId req) d2;
              d4 = tx_updateStatus signing txId d3
          in case processPayment_try env req agentRaw txId permChecks fee net d4 of
               (Inr res, d5) \<Rightarrow> (Inr res, d5)
             | (Inl e, d5) \<Rightarrow>
                 (Inl e,
                  agent_updateCredit (usedCreditUsdc (mkAgent agentRaw)) (agentId req)
                    (returnLiquidity net (tx_updateStatus failed txId d5))))"

text \<open>
  \<^verbatim>\<open>processPayment\<close>, steps 1 to 6, continued by the function above. An error
  leaves the state the code has written up to the throw, so the result is a pair of
  the outcome and the state. The fee is \<^verbatim>\<open>(req.amountUsdc * feeBps) / 10000\<close>, a
  rounded product divided and rounded again.
\<close>

definition processPayment :: "Env \<Rightarrow> PaymentRequest \<Rightarrow> db \<Rightarrow> PaymentResult result" where
  "processPayment env req d =
     (case tx_getByIdempotencyKey (idempotencyKey req) d of
        Some existing \<Rightarrow>
          (Inr \<lparr> transactionId = tx_id existing, res_status = tx_status existing,
                 permissionChecks = permission_checks existing,
                 feeUsdc = fee_usdc existing, netAmountUsdc = net_amount_usdc existing,
                 mpcSignatureId = None, txHash = Some (tx_hash existing),
                 awaitingAgentSignature = None \<rparr>, d)
      | None \<Rightarrow>
     (case agent_getById (agentId req) d of
        None \<Rightarrow> (Inl (Error ''Agent not found''), d)
      | Some agentRaw \<Rightarrow>
          let agent = mkAgent agentRaw;
              feeBps = (if truthy (merchantId req)
                        then (case merchant_getById (the (merchantId req)) d of
                                Some merchant \<Rightarrow> fee_bps merchant
                              | None \<Rightarrow> MERCHANT_FEE_BPS env)
                        else MERCHANT_FEE_BPS env);
              fee = fdiv (fmul (amountUsdc req) feeBps) 10000;
              net = fsub (amountUsdc req) fee;
              (permChecks, d0) = runPermissionChecks agent (recipientAddress req) (amountUsdc req)
                                   (merchantId req) (recipientAgentId req) d;
              txId = uuid env;
              txType = (if truthy (recipientAgentId req) then agent_to_agent
                        else agent_to_merchant)
          in case tx_create
                    \<lparr> tx_id = txId, agent_id = agentId req,
                      merchant_id = orNull (merchantId req),
                      recipient_agent_id = orNull (recipientAgentId req),
                      amount_usdc = amountUsdc req, fee_usdc = fee, net_amount_usdc = net,
                      tx_status = (if allPassed permChecks then approved else rejected),
                      tx_type = txType, tx_hash = None,
                      recipient_address = recipientAddress req,
                      memo = orNull (req_memo req), permission_checks = permChecks,
                      idempotency_key = idempotencyKey req, settled = False \<rparr> d0 of
               Inl e \<Rightarrow> (Inl e, d0)
             | Inr d1 \<Rightarrow>
                 if \<not> allPassed permChecks then
                   (Inr \<lparr> transactionId = txId, res_status = rejected,
                          permissionChecks = permChecks, feeUsdc = fee, netAmountUsdc = net,
                          mpcSignatureId = None, txHash = None,
                          awaitingAgentSignature = None \<rparr>, d1)
                 else processPayment_reserve env req agentRaw txId permChecks fee net d1))"

record RepaymentResult =
  repaymentId :: string
  rr_amountUsdc :: usdc
  newBalance :: usdc

text \<open>
  \<^verbatim>\<open>processRepayment\<close>. The record, the credit update, the liquidity return and the
  status restore run in one database transaction.
\<close>

definition processRepayment :: "Env \<Rightarrow> string \<Rightarrow> usdc \<Rightarrow> string \<Rightarrow> db \<Rightarrow> RepaymentResult result" where
  "processRepayment env agentId' amount txHash' d =
     (case agent_getById agentId' d of
        None \<Rightarrow> (Inl (Error ''Agent not found''), d)
      | Some agent \<Rightarrow>
          let actualRepayment = min amount (used_credit_usdc agent)
          in if actualRepayment \<le> 0 then (Inl (Error ''No outstanding balance to repay''), d)
             else
               case repayment_create \<lparr> rp_id = uuid env, rp_agent_id = agentId',
                                       rp_amount_usdc = actualRepayment, rp_tx_hash = txHash' \<rparr> d of
                 Inl e \<Rightarrow> (Inl e, d)
               | Inr d1 \<Rightarrow>
                   let newUsedCredit = fsub (used_credit_usdc agent) actualRepayment;
                       d2 = agent_updateCredit newUsedCredit agentId' d1;
                       d3 = returnLiquidity actualRepayment d2;
                       d4 = (if ag_status agent = delinquent \<and> newUsedCredit = 0
                             then agent_updateStatus active agentId' d3 else d3)
                   in (Inr \<lparr> repaymentId = uuid env, rr_amountUsdc = actualRepayment,
                              newBalance = fsub (used_credit_usdc agent) actualRepayment \<rparr>, d4))"

section \<open>Credit limit adjustment (\<^verbatim>\<open>core/agent.ts\<close>)\<close>

definition adjustCreditLimit :: "Env \<Rightarrow> string \<Rightarrow> usdc \<Rightarrow> db \<Rightarrow> Agent result" where
  "adjustCreditLimit env agentId' newLimitUsdc d =
     (case agent_getById agentId' d of
        None \<Rightarrow> (Inl (Error ''Agent not found''), d)
      | Some agent \<Rightarrow>
          if newLimitUsdc < used_credit_usdc agent
          then (Inl (Error ''Cannot set limit below current usage''), d)
          else if newLimitUsdc > MAX_CREDIT_LIMIT_USDC env
          then (Inl (Error ''Limit cannot exceed maximum''), d)
          else
            let d1 = agent_updateLimit newLimitUsdc agentId' d
            in case agent_getById agentId' d1 of
                 None \<Rightarrow> (Inl (Error ''Agent not found''), d1)
               | Some raw \<Rightarrow> (Inr (mkAgent raw), d1))"

section \<open>MPC signing (\<^verbatim>\<open>mpc/index.ts\<close>)\<close>

text \<open>
  \<^verbatim>\<open>mod(a, b)\<close> of the module, and \<^verbatim>\<open>signWithMPC\<close>. The AES decryption
  (\<^verbatim>\<open>decryptShard\<close>) and the ECDSA signature of the library
  (\<^verbatim>\<open>secp256k1.signAsync\<close>, called with \<^verbatim>\<open>lowS: true\<close>) are parameters: the
  first maps the stored ciphertext and the key to the shard's hexadecimal text or throws,
  the second maps the message hash and the private scalar to the signature pair and
  the recovery bit or throws. The hexadecimal formatting of the result is left out.
\<close>

definition mod_bigint :: "int \<Rightarrow> int \<Rightarrow> int" where
  "mod_bigint a b = (let result = a smod b in if result \<ge> 0 then result else result + b)"

record EcdsaSignature =
  lib_r :: int
  lib_s :: int
  lib_recovery :: "nat option"

record MPCSignature =
  sig_r :: int
  sig_s :: int
  sig_v :: nat

definition signWithMPC ::
  "(string \<Rightarrow> string \<Rightarrow> error + string) \<Rightarrow> (string \<Rightarrow> int \<Rightarrow> error + EcdsaSignature)
    \<Rightarrow> string \<Rightarrow> string \<Rightarrow> string \<Rightarrow> string \<Rightarrow> error + MPCSignature" where
  "signWithMPC decryptShard signAsync messageHash encryptedServerShard encryptionKey agentShardHex =
     (case decryptShard encryptedServerShard encryptionKey of
        Inl e \<Rightarrow> Inl e
      | Inr serverShardHex \<Rightarrow>
     (case bigIntOfHex serverShardHex of
        Inl e \<Rightarrow> Inl e
      | Inr serverShardBig \<Rightarrow>
     (case bigIntOfHex agentShardHex of
        Inl e \<Rightarrow> Inl e
      | Inr agentShardBig \<Rightarrow>
          let fullKeyBig = mod_bigint (serverShardBig + agentShardBig) curve_n
          in case signAsync messageHash fullKeyBig of
               Inl e \<Rightarrow> Inl e
             | Inr sig \<Rightarrow>
                 Inr \<lparr> sig_r = lib_r sig, sig_s = lib_s sig,
                       sig_v = 27 + (case lib_recovery sig of None \<Rightarrow> 0 | Some b \<Rightarrow> b) \<rparr>)))"

section \<open>Operation sequences\<close>

text \<open>
  The entry points that write credit or vault state, as one datatype, and the state
  after a sequence of them (each runs to its end before the next starts; an operation
  that throws leaves the state it had written).
\<close>

datatype op =
    Pay Env PaymentRequest
  | Repay Env string usdc string
  | AdjustLimit Env string usdc
  | Deposit string string usdc string
  | Withdraw string number
  | InjectFee usdc
  | ReserveLiquidity usdc
  | ReturnLiquidity usdc

fun step :: "op \<Rightarrow> db \<Rightarrow> db" where
  "step (Pay env req) d = snd (processPayment env req d)"
| "step (Repay env i a h) d = snd (processRepayment env i a h d)"
| "step (AdjustLimit env i l) d = snd (adjustCreditLimit env i l d)"
| "step (Deposit pid addr a h) d = snd (processDeposit pid addr a h d)"
| "step (Withdraw addr sh) d = snd (processWithdrawal addr sh d)"
| "step (InjectFee f) d = processFeeIntoVault f d"
| "step (ReserveLiquidity a) d = snd (reserveLiquidity a d)"
| "step (ReturnLiquidity a) d = returnLiquidity a d"

fun run :: "op list \<Rightarrow> db \<Rightarrow> db" where
  "run [] d = d"
| "run (x # xs) d = run xs (step x d)"

text \<open>The credit invariant and the vault invariant of the specification.\<close>

definition credit_ok :: "db \<Rightarrow> bool" where
  "credit_ok d =
     list_all (\<lambda>a. 0 \<le> used_credit_usdc a \<and> used_credit_usdc a \<le> credit_limit_usdc a) (agents d)"

definition vault_ok :: "db \<Rightarrow> bool" where
  "vault_ok d =
     (0 \<le> total_lent_usdc (vault d) \<and> total_lent_usdc (vault d) \<le> total_deposits_usdc (vault d))"

text \<open>The fee and the net amount \<^verbatim>\<open>processPayment\<close> computes for a request.\<close>

definition feeOf :: "Env \<Rightarrow> PaymentRequest \<Rightarrow> db \<Rightarrow> usdc" where
  "feeOf env req d =
     fdiv (fmul (amountUsdc req)
        (if truthy (merchantId req)
         then (case merchant_getById (the (merchantId req)) d of
                 Some merchant \<Rightarrow> fee_bps merchant
               | None \<Rightarrow> MERCHANT_FEE_BPS env)
         else MERCHANT_FEE_BPS env)) 10000"

definition netOf :: "Env \<Rightarrow> PaymentRequest \<Rightarrow> db \<Rightarrow> usdc" where
  "netOf env req d = fsub (amountUsdc req) (feeOf env req d)"


text \<open>
  Names for the verdict \<^verbatim>\<open>processPayment\<close> obtains for a request, for the state
  the screening of the recipient leaves, and for the transaction row the function
  inserts, used to state what the function does step by step.
\<close>

definition verdictOf :: "PaymentRequest \<Rightarrow> AgentRow \<Rightarrow> db \<Rightarrow> PermissionCheckResult" where
  "verdictOf req agentRaw d =
     fst (runPermissionChecks (mkAgent agentRaw) (recipientAddress req) (amountUsdc req)
            (merchantId req) (recipientAgentId req) d)"

definition screened :: "PaymentRequest \<Rightarrow> db \<Rightarrow> db" where
  "screened req d = snd (screenAddress (recipientAddress req) d)"

definition txRow :: "Env \<Rightarrow> PaymentRequest \<Rightarrow> AgentRow \<Rightarrow> db \<Rightarrow> TransactionRow" where
  "txRow env req agentRaw d =
     \<lparr> tx_id = uuid env, agent_id = agentId req,
       merchant_id = orNull (merchantId req),
       recipient_agent_id = orNull (recipientAgentId req),
       amount_usdc = amountUsdc req, fee_usdc = feeOf env req d,
       net_amount_usdc = netOf env req d,
       tx_status = (if allPassed (verdictOf req agentRaw d) then approved else rejected),
       tx_type = (if truthy (recipientAgentId req) then agent_to_agent else agent_to_merchant),
       tx_hash = None, recipient_address = recipientAddress req,
       memo = orNull (req_memo req), permission_checks = verdictOf req agentRaw d,
       idempotency_key = idempotencyKey req, settled = False \<rparr>"

text \<open>The object the replay branch of \<^verbatim>\<open>processPayment\<close> builds from a stored row.\<close>

definition snapshotOf :: "TransactionRow \<Rightarrow> PaymentResult" where
  "snapshotOf t =
     \<lparr> transactionId = tx_id t, res_status = tx_status t,
       permissionChecks = permission_checks t,
       feeUsdc = fee_usdc t, netAmountUsdc = net_amount_usdc t,
       mpcSignatureId = None, txHash = Some (tx_hash t), awaitingAgentSignature = None \<rparr>"

section \<open>Concrete scenarios\<close>

text \<open>
  Scenario A of the specification: an approved, active agent with limit 1000 and no
  usage, a merchant with 150 basis points, a funded vault, and a request of 100 that
  supplies the agent shard. The environments differ in what the chain provider reports.
\<close>

definition agentA :: AgentRow where
  "agentA = \<lparr> ag_id = ''a1'', wallet_address = ''0xaa'', credit_limit_usdc = 1000,
              used_credit_usdc = 0, ag_status = active, kya_status = kya_approved,
              risk_score = 50, mpc_server_shard_enc = ''iv:c'' \<rparr>"

definition merchantA :: MerchantRow where
  "merchantA = \<lparr> m_id = ''m1'', m_status = m_active, fee_bps = 150, sanctions_clean = True \<rparr>"

definition dbA :: db where
  "dbA = \<lparr> agents = [agentA], merchants = [merchantA], transactions = [], repayments = [],
           vault = \<lparr> total_deposits_usdc = 50000, total_lent_usdc = 0,
                     total_fees_earned_usdc = 0, total_shares = 50000 \<rparr>,
           lender_positions = [], sanctioned_addresses = [] \<rparr>"

definition reqA :: PaymentRequest where
  "reqA = \<lparr> agentId = ''a1'', recipientAddress = ''0xbb'', amountUsdc = 100, req_memo = None,
            merchantId = Some ''m1'', recipientAgentId = None,
            agentPartialSignature = Some ''07'', idempotencyKey = ''k1'' \<rparr>"

definition decryptsTo05 :: "string \<Rightarrow> error + string" where
  "decryptsTo05 c = Inr ''05''"

definition transferConfirmed :: "int \<Rightarrow> string \<Rightarrow> usdc \<Rightarrow> error + ChainTransferResult" where
  "transferConfirmed k to a = Inr \<lparr> ctr_txHash = ''0xf1'', ctr_confirmed = True \<rparr>"

definition transferUnconfirmed :: "int \<Rightarrow> string \<Rightarrow> usdc \<Rightarrow> error + ChainTransferResult" where
  "transferUnconfirmed k to a = Inr \<lparr> ctr_txHash = ''0xf0'', ctr_confirmed = False \<rparr>"

definition envConfirmed :: Env where
  "envConfirmed = \<lparr> uuid = ''t1'', decryptServerShard = decryptsTo05,
                    chain_base = BaseChainLive transferConfirmed,
                    MERCHANT_FEE_BPS = 150, MAX_CREDIT_LIMIT_USDC = 100000 \<rparr>"

definition envUnconfirmed :: Env where
  "envUnconfirmed = envConfirmed\<lparr> chain_base := BaseChainLive transferUnconfirmed \<rparr>"

text \<open>Stand-ins for the decryption and the signature library in concrete evaluations.\<close>

definition decryptPlain :: "string \<Rightarrow> string \<Rightarrow> error + string" where
  "decryptPlain c k = Inr c"

definition signEcho :: "string \<Rightarrow> int \<Rightarrow> error + EcdsaSignature" where
  "signEcho m k = Inr \<lparr> lib_r = k, lib_s = 1, lib_recovery = Some 0 \<rparr>"

text \<open>The database as \<^verbatim>\<open>migrate()\<close> leaves it: no rows, the vault at zero.\<close>

definition db0 :: db where
  "db0 = \<lparr> agents = [], merchants = [], transactions = [], repayments = [],
           vault = \<lparr> total_deposits_usdc = 0, total_lent_usdc = 0,
                     total_fees_earned_usdc = 0, total_shares = 0 \<rparr>,
           lender_positions = [], sanctioned_addresses = [] \<rparr>"

text \<open>
  The same request without the agent shard, and the environment of a later call
  (it draws another \<^verbatim>\<open>uuid()\<close>).
\<close>

definition reqAwait :: PaymentRequest where
  "reqAwait = reqA\<lparr> agentPartialSignature := None \<rparr>"

definition envRepay :: Env where
  "envRepay = envConfirmed\<lparr> uuid := ''r1'' \<rparr>"

text \<open>A payment left awaiting the shard, then the repayment of the gross amount.\<close>

definition opsPayRepay :: "op list" where
  "opsPayRepay = [Pay envConfirmed reqAwait, Repay envRepay ''a1'' 100 ''0xh'']"


text \<open>
  An agent registered with the credit limit \<^verbatim>\<open>10.1\<close>, and two payments of
  \<^verbatim>\<open>0.71\<close> and \<^verbatim>\<open>9.39\<close> that do not supply the shard (each stays in
  \<^verbatim>\<open>signing\<close> with its debit in place).
\<close>

definition dbLimit :: db where
  "dbLimit = dbA\<lparr> agents := [agentA\<lparr> credit_limit_usdc := fl (101 / 10) \<rparr>] \<rparr>"

definition reqFirst :: PaymentRequest where
  "reqFirst = reqAwait\<lparr> amountUsdc := fl (71 / 100) \<rparr>"

definition reqSecond :: PaymentRequest where
  "reqSecond = reqAwait\<lparr> amountUsdc := fl (939 / 100), idempotencyKey := ''k2'' \<rparr>"

definition envSecond :: Env where
  "envSecond = envConfirmed\<lparr> uuid := ''t2'' \<rparr>"

definition dbFirst :: db where
  "dbFirst = step (Pay envConfirmed reqFirst) dbLimit"

definition opsLimit :: "op list" where
  "opsLimit = [Pay envConfirmed reqFirst, Pay envSecond reqSecond]"

text \<open>
  Scenario D of the specification after an earlier payment of 1 that awaits its shard
  (so that \<^verbatim>\<open>0.985\<close> is lent and 1 is used): the request of 100 supplies the shard
  and the provider reports \<^verbatim>\<open>confirmed: false\<close>.
\<close>

definition reqOne :: PaymentRequest where
  "reqOne = reqAwait\<lparr> amountUsdc := 1 \<rparr>"

definition reqD :: PaymentRequest where
  "reqD = reqA\<lparr> idempotencyKey := ''k2'' \<rparr>"

definition envD :: Env where
  "envD = envUnconfirmed\<lparr> uuid := ''t2'' \<rparr>"


text \<open>The yield law at \<open>D = 19\<close> and \<open>F = 2\<close>: one deposit into the empty vault, one fee.\<close>

definition opsYield :: "op list" where
  "opsYield = [Deposit ''p1'' ''0xL1'' 19 ''0xd1'', InjectFee 2]"

text \<open>
  Requests that name a merchant that does not exist: a first submission, one whose
  recipient is on the list of sanctioned entities, and one that reuses the
  idempotency key of a recorded transaction.
\<close>

definition reqUnknownMerchant :: PaymentRequest where
  "reqUnknownMerchant = reqA\<lparr> merchantId := Some ''m9'' \<rparr>"

definition reqUnknownMerchantListed :: PaymentRequest where
  "reqUnknownMerchantListed =
     reqUnknownMerchant\<lparr> recipientAddress := ''0x8589427373D6D84E98730D7795D8f6f8731FDA16'' \<rparr>"

definition dbRecorded :: db where
  "dbRecorded = step (Pay envConfirmed reqAwait) dbA"

text \<open>
  A deposit of \<^verbatim>\<open>10.1\<close> into the empty vault and a reservation of
  \<^verbatim>\<open>0.71\<close>, then a reservation of \<^verbatim>\<open>9.39\<close>.
\<close>

definition opsTight :: "op list" where
  "opsTight = [Deposit ''p1'' ''0xL1'' (fl (101 / 10)) ''0xd1'', ReserveLiquidity (fl (71 / 100))]"

definition dbTight :: db where
  "dbTight = run opsTight db0"

definition opsReserve :: "op list" where
  "opsReserve = opsTight @ [ReserveLiquidity (fl (939 / 100))]"

section \<open>Auxiliary facts\<close>

subsection \<open>Rounding is monotone\<close>

text \<open>
  \<open>floor_log2\<close> is the binary exponent, \<open>rne\<close> and \<open>fl\<close> are odd and
  monotone. So a sum with a negative number is never above the other summand, when
  that is a double.
\<close>

lemma pow2_powi: "pow2 e = 2 powi e"
  by (simp add: pow2_def power_int_def power_inverse inverse_eq_divide power_one_over)

lemma pow2_pos [simp]: "0 < pow2 e"
  by (simp add: pow2_powi)

lemma pow2_add: "pow2 (a + b) = pow2 a * pow2 b"
  by (simp add: pow2_powi power_int_add)

lemma pow2_diff: "pow2 (a - b) = pow2 a / pow2 b"
  by (simp add: pow2_powi power_int_diff)

lemma pow2_mono: "a \<le> b \<Longrightarrow> pow2 a \<le> pow2 b"
  by (simp add: pow2_powi power_int_increasing)

lemma pow2_less_imp: "pow2 a < pow2 b \<Longrightarrow> a < b"
  using pow2_mono [of b a] by (cases "a < b") auto

lemma pow2_nat: "0 \<le> e \<Longrightarrow> pow2 e = 2 ^ nat e"
  by (simp add: pow2_def)

lemma bitlen_pow2:
  assumes "0 < p"
  shows "pow2 (bitlen p - 1) \<le> of_int p \<and> of_int p < pow2 (bitlen p)"
proof -
  have b: "2 ^ nat (bitlen p - 1) \<le> p \<and> p < 2 ^ nat (bitlen p)"
    using bitlen_bounds [OF assms] .
  have pos: "0 < bitlen p"
  proof (rule ccontr)
    assume "\<not> 0 < bitlen p"
    then have "nat (bitlen p) = 0" by simp
    then show False using b assms by simp
  qed
  have "pow2 (bitlen p - 1) = of_int (2 ^ nat (bitlen p - 1))"
    using pos by (simp add: pow2_nat)
  moreover have "pow2 (bitlen p) = of_int (2 ^ nat (bitlen p))"
    using pos by (simp add: pow2_nat)
  ultimately show ?thesis using b
    by (metis of_int_le_iff of_int_less_iff)
qed

lemma floor_log2_bounds:
  assumes "0 < x"
  shows "pow2 (floor_log2 x) \<le> x \<and> x < pow2 (floor_log2 x + 1)"
proof -
  obtain p q where pq: "quotient_of x = (p, q)" by (cases "quotient_of x") auto
  have q: "0 < q" using quotient_of_denom_pos [OF pq] .
  have x: "x = of_int p / of_int q" using quotient_of_div [OF pq] .
  have p: "0 < p" using assms q x by (simp add: zero_less_divide_iff)
  define d where "d = bitlen p - bitlen q"
  note bp = bitlen_pow2 [OF p] and bq = bitlen_pow2 [OF q]
  have qpos: "(0::rat) < of_int q" using q by simp
  have up: "x < pow2 (d + 1)"
  proof -
    have "x < pow2 (bitlen p) / of_int q"
      unfolding x using bp qpos by (intro divide_strict_right_mono) auto
    also have "\<dots> \<le> pow2 (bitlen p) / pow2 (bitlen q - 1)"
      using bq by (intro frac_le) (auto simp: less_imp_le)
    also have "\<dots> = pow2 (d + 1)" unfolding d_def by (simp add: pow2_diff [symmetric] algebra_simps)
    finally show ?thesis .
  qed
  have lo: "pow2 (d - 1) \<le> x"
  proof -
    have "pow2 (d - 1) = pow2 (bitlen p - 1) / pow2 (bitlen q)"
      unfolding d_def by (simp add: pow2_diff [symmetric] algebra_simps)
    also have "\<dots> \<le> of_int p / pow2 (bitlen q)"
      using bp by (intro divide_right_mono) (auto simp: less_imp_le)
    also have "\<dots> \<le> of_int p / of_int q"
      using bq p qpos by (intro frac_le) (auto simp: less_imp_le)
    finally show ?thesis unfolding x .
  qed
  have e: "floor_log2 x = (if pow2 d \<le> x then d else d - 1)"
    by (simp add: floor_log2_def pq d_def Let_def)
  show ?thesis using up lo unfolding e by auto
qed

lemma floor_log2_mono:
  assumes "0 < x" "x \<le> y"
  shows "floor_log2 x \<le> floor_log2 y"
proof -
  have "pow2 (floor_log2 x) \<le> x" using floor_log2_bounds [OF assms(1)] by simp
  also have "x \<le> y" by fact
  also have "y < pow2 (floor_log2 y + 1)" using floor_log2_bounds [of y] assms by simp
  finally have "floor_log2 x < floor_log2 y + 1" by (rule pow2_less_imp)
  then show ?thesis by simp
qed

lemma rne_of_int [simp]: "rne (of_int n) = n"
  by (simp add: rne_def)

lemma rne_range: "rne y = \<lfloor>y\<rfloor> \<or> rne y = \<lfloor>y\<rfloor> + 1"
  by (simp add: rne_def Let_def)

lemma rne_mono:
  assumes "a \<le> b"
  shows "rne a \<le> rne b"
proof (cases "\<lfloor>a\<rfloor> = \<lfloor>b\<rfloor>")
  case True
  have "a - of_int \<lfloor>a\<rfloor> \<le> b - of_int \<lfloor>a\<rfloor>" using assms by simp
  then show ?thesis unfolding rne_def Let_def True [symmetric]
    by (auto simp: True)
next
  case False
  have "\<lfloor>a\<rfloor> \<le> \<lfloor>b\<rfloor>" using assms by (rule floor_mono)
  then have "\<lfloor>a\<rfloor> + 1 \<le> \<lfloor>b\<rfloor>" using False by simp
  then show ?thesis using rne_range [of a] rne_range [of b] by auto
qed


lemma rne_minus: "rne (- y) = - rne y"
proof (cases "y = of_int \<lfloor>y\<rfloor>")
  case True
  then obtain n where "y = of_int n" ..
  then have "rne y = n" "rne (- y) = - n"
    using rne_of_int [of n] rne_of_int [of "- n"] by simp_all
  then show ?thesis by simp
next
  case False
  define f where "f = \<lfloor>y\<rfloor>"
  define d where "d = y - of_int f"
  have fm: "\<lfloor>- y\<rfloor> = - f - 1"
    using False by (simp add: floor_minus ceiling_altdef f_def)
  have "of_int f \<le> y" "y < of_int f + 1"
    using floor_correct [of y] by (simp_all add: f_def)
  moreover have "y \<noteq> of_int f" using False by (simp add: f_def)
  ultimately have d0: "0 < d" "d < 1" by (simp_all add: d_def)
  have dm: "- y - of_int (- f - 1) = 1 - d" by (simp add: d_def)
  have ev: "even (- f - 1) \<longleftrightarrow> odd f" by simp
  have r1: "rne y = (if d < 1 / 2 then f else if 1 / 2 < d then f + 1 else if even f then f else f + 1)"
    by (simp add: rne_def Let_def f_def d_def)
  have r2: "rne (- y) = (if 1 - d < 1 / 2 then - f - 1 else if 1 / 2 < 1 - d then - f - 1 + 1
                          else if odd f then - f - 1 else - f - 1 + 1)"
    unfolding rne_def Let_def fm dm ev by simp
  show ?thesis unfolding r1 r2 using d0 by auto
qed

lemma fl_zero [simp]: "fl 0 = 0"
  by (simp add: fl_def)

lemma fl_minus: "fl (- x) = - fl x"
  by (simp add: fl_def Let_def rne_minus)

lemma fl_pos_eq:
  "0 < x \<Longrightarrow> fl x = of_int (rne (x / pow2 (max (floor_log2 x) (- 1022) - 52)))
                        * pow2 (max (floor_log2 x) (- 1022) - 52)"
  by (simp add: fl_def Let_def)

lemma rne_nonneg: "0 \<le> y \<Longrightarrow> 0 \<le> rne y"
  using rne_mono [of 0 y] rne_of_int [of 0] by simp

lemma fl_nonneg: "0 \<le> x \<Longrightarrow> 0 \<le> fl x"
proof (cases "x = 0")
  case True
  then show ?thesis by simp
next
  case False
  assume "0 \<le> x"
  then have x: "0 < x" using False by simp
  have "0 \<le> rne (x / pow2 (max (floor_log2 x) (- 1022) - 52))"
    using x by (intro rne_nonneg) (simp add: less_imp_le)
  then have "(0::rat) \<le> of_int (rne (x / pow2 (max (floor_log2 x) (- 1022) - 52)))
                         * pow2 (max (floor_log2 x) (- 1022) - 52)"
    by (intro mult_nonneg_nonneg) (simp_all add: less_imp_le)
  then show ?thesis unfolding fl_pos_eq [OF x] .
qed

lemma fl_upper:
  assumes x: "0 < x"
  shows "fl x \<le> pow2 (max (floor_log2 x) (- 1022) + 1)"
proof -
  define E where "E = max (floor_log2 x) (- 1022)"
  define u where "u = pow2 (E - 52)"
  have u: "0 < u" by (simp add: u_def)
  have "x < pow2 (floor_log2 x + 1)" using floor_log2_bounds [OF x] by simp
  also have "\<dots> \<le> pow2 (E + 1)" by (rule pow2_mono) (simp add: E_def)
  finally have xe: "x < pow2 (E + 1)" .
  have e53: "pow2 (E + 1) = of_int (2 ^ 53) * u"
  proof -
    have "E + 1 = 53 + (E - 52)" by simp
    then have "pow2 (E + 1) = pow2 (53 + (E - 52))" by (simp only:)
    also have "\<dots> = pow2 53 * pow2 (E - 52)" by (rule pow2_add)
    finally have "pow2 (E + 1) = pow2 53 * pow2 (E - 52)" .
    then show ?thesis by (simp add: u_def pow2_def)
  qed
  have "x / u \<le> of_int (2 ^ 53)"
    using xe u unfolding e53 by (simp add: pos_divide_le_eq less_imp_le)
  then have "rne (x / u) \<le> 2 ^ 53"
    using rne_mono [of "x / u" "of_int (2 ^ 53)"] by (simp only: rne_of_int)
  then have "(of_int (rne (x / u)) :: rat) \<le> of_int (2 ^ 53)" by (simp only: of_int_le_iff)
  then have "of_int (rne (x / u)) * u \<le> of_int (2 ^ 53) * u"
    using u by (simp only: mult_le_cancel_right_pos)
  then show ?thesis unfolding fl_pos_eq [OF x] E_def [symmetric] u_def [symmetric] e53 .
qed

lemma fl_lower:
  assumes x: "0 < x" and n: "- 1022 \<le> floor_log2 x"
  shows "pow2 (floor_log2 x) \<le> fl x"
proof -
  define E where "E = floor_log2 x"
  define u where "u = pow2 (E - 52)"
  have m: "max E (- 1022) = E" using n by (simp add: E_def)
  have u: "0 < u" by (simp add: u_def)
  have xe: "pow2 E \<le> x" using floor_log2_bounds [OF x] by (simp add: E_def)
  have e52: "pow2 E = of_int (2 ^ 52) * u"
  proof -
    have "E = 52 + (E - 52)" by simp
    then have "pow2 E = pow2 (52 + (E - 52))" by (simp only:)
    also have "\<dots> = pow2 52 * pow2 (E - 52)" by (rule pow2_add)
    finally have "pow2 E = pow2 52 * pow2 (E - 52)" .
    then show ?thesis by (simp add: u_def pow2_def)
  qed
  have "of_int (2 ^ 52) \<le> x / u"
    using xe u unfolding e52 by (simp add: pos_le_divide_eq)
  then have "2 ^ 52 \<le> rne (x / u)"
    using rne_mono [of "of_int (2 ^ 52)" "x / u"] by (simp only: rne_of_int)
  then have "(of_int (2 ^ 52) :: rat) \<le> of_int (rne (x / u))" by (simp only: of_int_le_iff)
  then have "of_int (2 ^ 52) * u \<le> of_int (rne (x / u)) * u"
    using u by (simp only: mult_le_cancel_right_pos)
  then show ?thesis unfolding fl_pos_eq [OF x] m E_def [symmetric] u_def [symmetric] e52 .
qed

lemma fl_mono_pos:
  assumes x: "0 < x" and xy: "x \<le> y"
  shows "fl x \<le> fl y"
proof -
  have y: "0 < y" using x xy by simp
  define Ex where "Ex = max (floor_log2 x) (- 1022)"
  define Ey where "Ey = max (floor_log2 y) (- 1022)"
  have le: "Ex \<le> Ey" using floor_log2_mono [OF x xy] by (simp add: Ex_def Ey_def)
  show ?thesis
  proof (cases "Ex = Ey")
    case True
    define u where "u = pow2 (Ex - 52)"
    have u: "0 < u" by (simp add: u_def)
    have "x / u \<le> y / u" using xy u by (simp add: divide_right_mono less_imp_le)
    then have "rne (x / u) \<le> rne (y / u)" by (rule rne_mono)
    then have "(of_int (rne (x / u)) :: rat) * u \<le> of_int (rne (y / u)) * u"
      using u by (simp add: mult_le_cancel_right_pos)
    then show ?thesis
      unfolding fl_pos_eq [OF x] fl_pos_eq [OF y] Ex_def [symmetric] Ey_def [symmetric]
        True [symmetric] u_def [symmetric] .
  next
    case False
    then have lt: "Ex < Ey" using le by simp
    then have ny: "- 1022 \<le> floor_log2 y" and ey: "Ey = floor_log2 y"
      by (auto simp: Ex_def Ey_def)
    have "fl x \<le> pow2 (Ex + 1)" using fl_upper [OF x] by (simp add: Ex_def)
    also have "\<dots> \<le> pow2 Ey" using lt by (intro pow2_mono) simp
    also have "\<dots> \<le> fl y" using fl_lower [OF y ny] by (simp add: ey)
    finally show ?thesis .
  qed
qed

lemma fl_mono:
  assumes "x \<le> y"
  shows "fl x \<le> fl y"
proof -
  consider (pos) "0 < x" | (neg) "y < 0" | (mid) "x \<le> 0" "0 \<le> y" by linarith
  then show ?thesis
  proof cases
    case pos
    then show ?thesis using assms by (rule fl_mono_pos)
  next
    case neg
    have "fl (- y) \<le> fl (- x)" using neg assms by (intro fl_mono_pos) simp_all
    then show ?thesis by (simp add: fl_minus)
  next
    case mid
    have "0 \<le> fl (- x)" using mid by (intro fl_nonneg) simp
    then have "fl x \<le> 0" by (simp add: fl_minus)
    moreover have "0 \<le> fl y" using mid by (intro fl_nonneg)
    ultimately show ?thesis by simp
  qed
qed

lemma fadd_negative:
  assumes "a < 0" and "fl x = x"
  shows "fadd x a \<le> x"
proof -
  have "fl (x + a) \<le> fl x" using assms(1) by (intro fl_mono) simp
  then show ?thesis using assms(2) by (simp add: fadd_def)
qed

subsection \<open>Values of the double operations\<close>

text \<open>
  The roundings that the scenarios of this development go through, each computed from
  the definition of \<open>fl\<close>. The decimal \<^verbatim>\<open>10.1\<close> is the double
  \<open>5685794529555251 / 562949953421312\<close>, and \<^verbatim>\<open>0.71 + 9.39\<close> is the next
  double above it, \<open>1421448632388813 / 140737488355328\<close>
  (\<^verbatim>\<open>10.100000000000001\<close>).
\<close>

lemma double_values:
  "fl (101 / 10) = 5685794529555251 / 562949953421312"
  "fl (71 / 100) = 799388933858263 / 1125899906842624"
  "fl (939 / 100) = 660762507828265 / 70368744177664"
  "fl (- (1 / 100000000000000000000)) = - (6646139978924579 / 664613997892457936451903530140172288)"
  "fl (1 / 1000) = 1152921504606847 / 1152921504606846976"
  "fsub 1000 0 = 1000"
  "fmul 100 150 = 15000"
  "fdiv 15000 10000 = 3 / 2"
  "fsub 100 (3 / 2) = 197 / 2"
  "fsub 50000 0 = 50000"
  "fadd 0 (197 / 2) = 197 / 2"
  "fadd 0 100 = 100"
  "fadd 0 (3 / 2) = 3 / 2"
  "fadd 50000 (3 / 2) = 100003 / 2"
  "fsub (197 / 2) (197 / 2) = 0"
  "fsub 100 100 = 0"
  "fsub (197 / 2) 100 = - (3 / 2)"
  "fsub 100 40 = 60"
  "fsub (197 / 2) 40 = 117 / 2"
  "fmul 1 150 = 150"
  "fdiv 150 10000 = 1080863910568919 / 72057594037927936"
  "fsub 1 (1080863910568919 / 72057594037927936) = 8872091265919877 / 9007199254740992"
  "fadd 0 (8872091265919877 / 9007199254740992) = 8872091265919877 / 9007199254740992"
  "fadd 0 1 = 1"
  "fsub 1000 1 = 999"
  "fsub 50000 (8872091265919877 / 9007199254740992) = 3435906148115415 / 68719476736"
  "fadd (8872091265919877 / 9007199254740992) (197 / 2) = 7000634514514903 / 70368744177664"
  "fadd 1 100 = 101"
  "fsub (7000634514514903 / 70368744177664) (197 / 2) = 69313213014999 / 70368744177664"
  "fsub (5685794529555251 / 562949953421312) 0 = 5685794529555251 / 562949953421312"
  "fmul (799388933858263 / 1125899906842624) 150 = 213 / 2"
  "fdiv (213 / 2) 10000 = 1534826753007865 / 144115188075855872"
  "fsub (799388933858263 / 1125899906842624) (1534826753007865 / 144115188075855872) = 787398099850389 / 1125899906842624"
  "fadd 0 (787398099850389 / 1125899906842624) = 787398099850389 / 1125899906842624"
  "fadd 0 (799388933858263 / 1125899906842624) = 799388933858263 / 1125899906842624"
  "fsub (5685794529555251 / 562949953421312) (799388933858263 / 1125899906842624) = 660762507828265 / 70368744177664"
  "fmul (660762507828265 / 70368744177664) 150 = 2817 / 2"
  "fdiv (2817 / 2) 10000 = 5074656060121075 / 36028797018963968"
  "fsub (660762507828265 / 70368744177664) (5074656060121075 / 36028797018963968) = 650851070210841 / 70368744177664"
  "fsub 50000 (787398099850389 / 1125899906842624) = 6871851555667889 / 137438953472"
  "fadd (787398099850389 / 1125899906842624) (650851070210841 / 70368744177664) = 2800253805805961 / 281474976710656"
  "fadd (799388933858263 / 1125899906842624) (660762507828265 / 70368744177664) = 1421448632388813 / 140737488355328"
  "fdiv 19 1 = 19"
  "fadd 0 19 = 19"
  "fadd 0 2 = 2"
  "fadd 19 2 = 21"
  "fdiv 21 19 = 4977662746041075 / 4503599627370496"
  "fmul 19 (4977662746041075 / 4503599627370496) = 5910974510923777 / 281474976710656"
  "fsub 21 0 = 21"
  "fdiv (5685794529555251 / 562949953421312) 1 = 5685794529555251 / 562949953421312"
  "fadd 0 (5685794529555251 / 562949953421312) = 5685794529555251 / 562949953421312"
  "fsub 50000 (197 / 2) = 99803 / 2"
  "fadd (197 / 2) (- (6646139978924579 / 664613997892457936451903530140172288)) = 197 / 2"
  "fadd 0 (- 5) = - 5"
  by code_simp+

lemma string_values:
  "toLowerCase ''0xbb'' = ''0xbb''"
  "toLowerCase ''0xL1'' = ''0xl1''"
  "toLowerCase ''0x8589427373D6D84E98730D7795D8f6f8731FDA16''
     = ''0x8589427373d6d84e98730d7795d8f6f8731fda16''"
  "''0xbb'' \<notin> set KNOWN_SANCTIONED_ENTITIES"
  "''0xbb'' \<notin> set KNOWN_MIXER_CONTRACTS"
  "''0x8589427373d6d84e98730d7795d8f6f8731fda16'' \<in> set KNOWN_SANCTIONED_ENTITIES"
  by code_simp+

subsection \<open>Definitions unfolded in concrete evaluations\<close>

lemmas scenario_defs =
  agentA_def merchantA_def dbA_def reqA_def reqAwait_def reqUnknownMerchant_def
  reqUnknownMerchantListed_def decryptsTo05_def transferConfirmed_def transferUnconfirmed_def
  envConfirmed_def envUnconfirmed_def envRepay_def envSecond_def envD_def db0_def
  reqFirst_def reqSecond_def reqOne_def reqD_def dbLimit_def

lemmas engine_defs =
  processPayment_def processPayment_reserve_def processPayment_try_def processRepayment_def
  adjustCreditLimit_def runPermissionChecks_def merchantRecipientCheck_def screenAddress_def
  sanctions_check_def sanctions_add_def mkAgent_def truthy_def orNull_def
  tx_getByIdempotencyKey_def agent_getById_def merchant_getById_def tx_create_def fk_ok_def
  tx_updateStatus_def tx_updateTxHash_def agent_updateCredit_def agent_updateStatus_def
  agent_updateLimit_def repayment_create_def reserveLiquidity_def returnLiquidity_def
  vault_returnLent_def vault_updateLent_def vault_addFees_def processFeeIntoVault_def
  getVaultState_def reconstructKey_def

lemmas vault_defs =
  processDeposit_def processWithdrawal_def getSharePrice_def getVaultState_def
  lender_create_def lender_getByAddress_def lender_updateShares_def
  vault_updateDeposit_def vault_updateWithdraw_def vault_updateLent_def vault_addFees_def
  vault_returnLent_def processFeeIntoVault_def reserveLiquidity_def returnLiquidity_def

subsection \<open>Big integers\<close>

lemma curve_n_pos: "0 < curve_n"
  by (simp add: curve_n_def)

lemma mod_bigint_eq: "0 < b \<Longrightarrow> mod_bigint a b = a mod b"
proof (cases "0 \<le> a")
  case True
  assume "0 < b"
  with True show ?thesis
    by (simp add: mod_bigint_def signed_modulo_int_def Let_def sgn_if)
next
  case False
  assume b: "0 < b"
  define c where "c = - a"
  have c: "0 < c" "a = - c" using False by (simp_all add: c_def)
  have m: "(- c) mod b = (if c mod b = 0 then 0 else b - c mod b)"
    by (rule zmod_zminus1_eq_if)
  have nn: "c mod b = 0 \<or> 0 < c mod b"
    using pos_mod_sign [OF b, of c] by linarith
  show ?thesis
    using nn
  proof
    assume z: "c mod b = 0"
    then show ?thesis using b c m
      by (simp add: mod_bigint_def signed_modulo_int_def Let_def sgn_if)
  next
    assume p: "0 < c mod b"
    then show ?thesis using b c m
      by (simp add: mod_bigint_def signed_modulo_int_def Let_def sgn_if)
  qed
qed

lemma hex0: "bigIntOfHex ''0'' = Inr 0"
  by (simp add: bigIntOfHex_def trimEnd_def isWhiteSpace_def hexDigit_def)

lemma hex05: "bigIntOfHex ''05'' = Inr 5"
  by (simp add: bigIntOfHex_def trimEnd_def isWhiteSpace_def hexDigit_def)


subsection \<open>What each write leaves alone\<close>

lemma getVaultState_fields [simp]:
  "totalDepositsUsdc (getVaultState d) = total_deposits_usdc (vault d)"
  "totalLentUsdc (getVaultState d) = total_lent_usdc (vault d)"
  "availableLiquidityUsdc (getVaultState d) =
     fsub (total_deposits_usdc (vault d)) (total_lent_usdc (vault d))"
  "totalFeesEarnedUsdc (getVaultState d) = total_fees_earned_usdc (vault d)"
  "totalShares (getVaultState d) = total_shares (vault d)"
  by (simp_all add: getVaultState_def Let_def)

lemma vault_upd_frame [simp]:
  "agents (vault_updateLent a d) = agents d"
  "merchants (vault_updateLent a d) = merchants d"
  "transactions (vault_updateLent a d) = transactions d"
  "repayments (vault_updateLent a d) = repayments d"
  "lender_positions (vault_updateLent a d) = lender_positions d"
  "sanctioned_addresses (vault_updateLent a d) = sanctioned_addresses d"
  "agents (returnLiquidity a d) = agents d"
  "merchants (returnLiquidity a d) = merchants d"
  "transactions (returnLiquidity a d) = transactions d"
  "repayments (returnLiquidity a d) = repayments d"
  "lender_positions (returnLiquidity a d) = lender_positions d"
  "sanctioned_addresses (returnLiquidity a d) = sanctioned_addresses d"
  "agents (processFeeIntoVault a d) = agents d"
  "merchants (processFeeIntoVault a d) = merchants d"
  "transactions (processFeeIntoVault a d) = transactions d"
  "repayments (processFeeIntoVault a d) = repayments d"
  "lender_positions (processFeeIntoVault a d) = lender_positions d"
  "sanctioned_addresses (processFeeIntoVault a d) = sanctioned_addresses d"
  by (simp_all add: vault_updateLent_def vault_addFees_def returnLiquidity_def
        vault_returnLent_def processFeeIntoVault_def)

lemma vault_upd_vault [simp]:
  "vault (vault_updateLent a d) =
     (vault d)\<lparr>total_lent_usdc := fadd (total_lent_usdc (vault d)) a\<rparr>"
  "vault (returnLiquidity a d) =
     (vault d)\<lparr>total_lent_usdc := fsub (total_lent_usdc (vault d)) a\<rparr>"
  by (simp_all add: vault_updateLent_def returnLiquidity_def vault_returnLent_def)

lemma row_upd_frame [simp]:
  "vault (agent_updateCredit u i d) = vault d"
  "merchants (agent_updateCredit u i d) = merchants d"
  "transactions (agent_updateCredit u i d) = transactions d"
  "repayments (agent_updateCredit u i d) = repayments d"
  "lender_positions (agent_updateCredit u i d) = lender_positions d"
  "sanctioned_addresses (agent_updateCredit u i d) = sanctioned_addresses d"
  "vault (agent_updateStatus st i d) = vault d"
  "merchants (agent_updateStatus st i d) = merchants d"
  "transactions (agent_updateStatus st i d) = transactions d"
  "repayments (agent_updateStatus st i d) = repayments d"
  "lender_positions (agent_updateStatus st i d) = lender_positions d"
  "sanctioned_addresses (agent_updateStatus st i d) = sanctioned_addresses d"
  "vault (tx_updateStatus ts i d) = vault d"
  "agents (tx_updateStatus ts i d) = agents d"
  "merchants (tx_updateStatus ts i d) = merchants d"
  "repayments (tx_updateStatus ts i d) = repayments d"
  "lender_positions (tx_updateStatus ts i d) = lender_positions d"
  "sanctioned_addresses (tx_updateStatus ts i d) = sanctioned_addresses d"
  "vault (tx_updateTxHash h i d) = vault d"
  "agents (tx_updateTxHash h i d) = agents d"
  "merchants (tx_updateTxHash h i d) = merchants d"
  "repayments (tx_updateTxHash h i d) = repayments d"
  "lender_positions (tx_updateTxHash h i d) = lender_positions d"
  "sanctioned_addresses (tx_updateTxHash h i d) = sanctioned_addresses d"
  by (simp_all add: agent_updateCredit_def agent_updateStatus_def
        tx_updateStatus_def tx_updateTxHash_def)

lemma screenAddress_frame [simp]:
  "agents (snd (screenAddress a d)) = agents d"
  "merchants (snd (screenAddress a d)) = merchants d"
  "transactions (snd (screenAddress a d)) = transactions d"
  "repayments (snd (screenAddress a d)) = repayments d"
  "vault (snd (screenAddress a d)) = vault d"
  "lender_positions (snd (screenAddress a d)) = lender_positions d"
  by (simp_all add: screenAddress_def sanctions_add_def Let_def split: option.split)

lemma screened_frame [simp]:
  "agents (screened req d) = agents d"
  "merchants (screened req d) = merchants d"
  "transactions (screened req d) = transactions d"
  "repayments (screened req d) = repayments d"
  "vault (screened req d) = vault d"
  "lender_positions (screened req d) = lender_positions d"
  by (simp_all add: screened_def)

lemma runPermissionChecks_snd:
  "snd (runPermissionChecks ag ra amt m r d) = snd (screenAddress ra d)"
  by (simp add: runPermissionChecks_def Let_def split_def)

lemma agents_updateCredit [simp]:
  "agents (agent_updateCredit u i d) =
     map (\<lambda>x. if ag_id x = i then x\<lparr>used_credit_usdc := u\<rparr> else x) (agents d)"
  by (simp add: agent_updateCredit_def)

lemma agents_updateStatus [simp]:
  "agents (agent_updateStatus st i d) =
     map (\<lambda>x. if ag_id x = i then x\<lparr>ag_status := st\<rparr> else x) (agents d)"
  by (simp add: agent_updateStatus_def)

subsection \<open>Lookups\<close>

lemma find_map_inv: "(\<And>x. P (f x) = P x) \<Longrightarrow> find P (map f xs) = map_option f (find P xs)"
  by (induction xs) auto


lemma find_None_set: "find P xs = None \<Longrightarrow> \<forall>x \<in> set xs. \<not> P x"
  by (induction xs) (auto split: if_splits)

lemma find_append_last:
  "\<forall>x \<in> set xs. \<not> P x \<Longrightarrow> P y \<Longrightarrow> find P (xs @ [y]) = Some y"
  by (induction xs) auto

lemma find_key_exists:
  "k \<in> set (map idempotency_key xs) \<Longrightarrow> \<exists>t. find (\<lambda>t. idempotency_key t = k) xs = Some t"
  by (induction xs) auto





lemma key_after_updateStatus:
  "tx_getByIdempotencyKey k (tx_updateStatus st i d) =
     map_option (\<lambda>t. if tx_id t = i
                  then t\<lparr>tx_status := st, settled := (if st = confirmed then True else settled t)\<rparr>
                  else t) (tx_getByIdempotencyKey k d)"
  unfolding tx_getByIdempotencyKey_def tx_updateStatus_def
  by (simp add: find_map_inv)

lemma key_frame:
  "transactions d' = transactions d \<Longrightarrow> tx_getByIdempotencyKey k d' = tx_getByIdempotencyKey k d"
  by (simp add: tx_getByIdempotencyKey_def)

lemma tx_ids_upd [simp]:
  "map tx_id (transactions (tx_updateStatus st i d)) = map tx_id (transactions d)"
  "map tx_id (transactions (tx_updateTxHash h i d)) = map tx_id (transactions d)"
  "map idempotency_key (transactions (tx_updateStatus st i d)) = map idempotency_key (transactions d)"
  "map idempotency_key (transactions (tx_updateTxHash h i d)) = map idempotency_key (transactions d)"
  by (simp_all add: tx_updateStatus_def tx_updateTxHash_def comp_def if_distrib cong: if_cong)

lemma tx_create_frame:
  "tx_create row d = Inr d1 \<Longrightarrow>
     agents d1 = agents d \<and> vault d1 = vault d \<and> merchants d1 = merchants d
     \<and> repayments d1 = repayments d \<and> lender_positions d1 = lender_positions d
     \<and> sanctioned_addresses d1 = sanctioned_addresses d
     \<and> transactions d1 = transactions d @ [row]"
  by (auto simp: tx_create_def split: if_splits)

lemma repayment_create_frame:
  "repayment_create row d = Inr d1 \<Longrightarrow>
     agents d1 = agents d \<and> vault d1 = vault d \<and> merchants d1 = merchants d
     \<and> transactions d1 = transactions d \<and> lender_positions d1 = lender_positions d
     \<and> sanctioned_addresses d1 = sanctioned_addresses d
     \<and> repayments d1 = repayments d @ [row]"
  by (auto simp: repayment_create_def split: if_splits)

subsection \<open>The stages of a payment\<close>

lemma processPayment_existing:
  "tx_getByIdempotencyKey (idempotencyKey req) d = Some t \<Longrightarrow>
     processPayment env req d = (Inr (snapshotOf t), d)"
  by (simp add: processPayment_def snapshotOf_def)

lemma processPayment_no_agent:
  "tx_getByIdempotencyKey (idempotencyKey req) d = None \<Longrightarrow> agent_getById (agentId req) d = None \<Longrightarrow>
     processPayment env req d = (Inl (Error ''Agent not found''), d)"
  by (simp add: processPayment_def)

lemma processPayment_new:
  "tx_getByIdempotencyKey (idempotencyKey req) d = None \<Longrightarrow>
   agent_getById (agentId req) d = Some agentRaw \<Longrightarrow>
     processPayment env req d =
       (case tx_create (txRow env req agentRaw d) (screened req d) of
          Inl e \<Rightarrow> (Inl e, screened req d)
        | Inr d1 \<Rightarrow>
            if \<not> allPassed (verdictOf req agentRaw d)
            then (Inr \<lparr> transactionId = uuid env, res_status = rejected,
                        permissionChecks = verdictOf req agentRaw d,
                        feeUsdc = feeOf env req d, netAmountUsdc = netOf env req d,
                        mpcSignatureId = None, txHash = None,
                        awaitingAgentSignature = None \<rparr>, d1)
            else processPayment_reserve env req agentRaw (uuid env) (verdictOf req agentRaw d)
                   (feeOf env req d) (netOf env req d) d1)"
  by (simp only: processPayment_def Let_def split_def txRow_def verdictOf_def feeOf_def netOf_def
        screened_def runPermissionChecks_snd option.case cong: if_cong)

lemma try_tx_ids:
  "processPayment_try env req agentRaw txId pc fee net d = (res, d') \<Longrightarrow>
     map tx_id (transactions d') = map tx_id (transactions d)
     \<and> map idempotency_key (transactions d') = map idempotency_key (transactions d)"
  by (auto simp: processPayment_try_def Let_def split: if_splits sum.splits ChainProvider.splits)

lemma try_Inr:
  "processPayment_try env req agentRaw txId pc fee net d = (Inr x, d') \<Longrightarrow>
     x = \<lparr> transactionId = txId, res_status = signing, permissionChecks = pc,
           feeUsdc = fee, netAmountUsdc = net, mpcSignatureId = None, txHash = None,
           awaitingAgentSignature = Some True \<rparr>
     \<and> d' = tx_updateStatus signing txId d"
  by (auto simp: processPayment_try_def Let_def split: if_splits sum.splits ChainProvider.splits)

lemma reserve_keys:
  "map idempotency_key (transactions (snd (processPayment_reserve env req a txId pc fee net d1)))
     = map idempotency_key (transactions d1)"
proof (cases "net > availableLiquidityUsdc (getVaultState d1)")
  case True
  then show ?thesis by (simp add: processPayment_reserve_def reserveLiquidity_def Let_def)
next
  case False
  define d4 where "d4 = tx_updateStatus signing txId
     (agent_updateCredit (fadd (used_credit_usdc a) (amountUsdc req)) (agentId req)
        (vault_updateLent net d1))"
  obtain r5 d5 where t: "processPayment_try env req a txId pc fee net d4 = (r5, d5)"
    by (cases "processPayment_try env req a txId pc fee net d4") auto
  have k5: "map idempotency_key (transactions d5) = map idempotency_key (transactions d1)"
    using try_tx_ids [OF t] by (simp add: d4_def)
  show ?thesis using False t k5
    by (cases r5)
       (simp_all add: processPayment_reserve_def reserveLiquidity_def Let_def mkAgent_def
          d4_def [symmetric])
qed

lemma reserve_Inr:
  assumes "processPayment_reserve env req a txId pc fee net d1 = (Inr x, d')"
  shows "x = \<lparr> transactionId = txId, res_status = signing, permissionChecks = pc,
           feeUsdc = fee, netAmountUsdc = net, mpcSignatureId = None, txHash = None,
           awaitingAgentSignature = Some True \<rparr>
       \<and> transactions d' = transactions (tx_updateStatus signing txId (tx_updateStatus signing txId d1))
       \<and> net \<le> fsub (total_deposits_usdc (vault d1)) (total_lent_usdc (vault d1))
       \<and> vault d' = (vault d1)\<lparr>total_lent_usdc := fadd (total_lent_usdc (vault d1)) net\<rparr>"
proof (cases "net > availableLiquidityUsdc (getVaultState d1)")
  case True
  then show ?thesis using assms by (simp add: processPayment_reserve_def reserveLiquidity_def Let_def)
next
  case False
  define d4 where "d4 = tx_updateStatus signing txId
     (agent_updateCredit (fadd (used_credit_usdc a) (amountUsdc req)) (agentId req)
        (vault_updateLent net d1))"
  obtain r5 d5 where t: "processPayment_try env req a txId pc fee net d4 = (r5, d5)"
    by (cases "processPayment_try env req a txId pc fee net d4") auto
  have r: "r5 = Inr x \<and> d5 = d'" using assms False t
    by (cases r5)
       (simp_all add: processPayment_reserve_def reserveLiquidity_def Let_def mkAgent_def
          d4_def [symmetric])
  have t4: "transactions d4 = transactions (tx_updateStatus signing txId d1)"
    by (simp add: d4_def tx_updateStatus_def)
  have v4: "vault d4 = (vault d1)\<lparr>total_lent_usdc := fadd (total_lent_usdc (vault d1)) net\<rparr>"
    by (simp add: d4_def)
  have le: "net \<le> fsub (total_deposits_usdc (vault d1)) (total_lent_usdc (vault d1))"
    using False by simp
  show ?thesis using try_Inr [OF t [unfolded r [THEN conjunct1]]] r t4 v4 le
    by (simp add: tx_updateStatus_def)
qed

lemma processRepayment_result:
  assumes g: "agent_getById i d = Some a"
  shows "processRepayment env i amt h d =
     (if min amt (used_credit_usdc a) \<le> 0 then (Inl (Error ''No outstanding balance to repay''), d)
      else case repayment_create \<lparr> rp_id = uuid env, rp_agent_id = i,
                    rp_amount_usdc = min amt (used_credit_usdc a), rp_tx_hash = h \<rparr> d of
             Inl e \<Rightarrow> (Inl e, d)
           | Inr d1 \<Rightarrow>
              (Inr \<lparr> repaymentId = uuid env, rr_amountUsdc = min amt (used_credit_usdc a),
                      newBalance = fsub (used_credit_usdc a) (min amt (used_credit_usdc a)) \<rparr>,
               (if ag_status a = delinquent
                   \<and> fsub (used_credit_usdc a) (min amt (used_credit_usdc a)) = 0
                then agent_updateStatus active i else (\<lambda>x. x))
                 (returnLiquidity (min amt (used_credit_usdc a))
                    (agent_updateCredit (fsub (used_credit_usdc a) (min amt (used_credit_usdc a))) i d1))))"
  using g by (simp add: processRepayment_def Let_def split: sum.split)

subsection \<open>The scenarios evaluated\<close>


lemma payAwait:
  "processPayment envConfirmed reqAwait dbA =
    (Inr \<lparr> transactionId = ''t1'', res_status = signing,
           permissionChecks =
             \<lparr>creditCheck = True, sanctionsCheck = True, merchantCheck = True,
              kyaCheck = True, riskCheck = True, allPassed = True, failureReasons = []\<rparr>,
           feeUsdc = 3 / 2, netAmountUsdc = 197 / 2, mpcSignatureId = None, txHash = None,
           awaitingAgentSignature = Some True \<rparr>,
     dbA\<lparr> agents := [agentA\<lparr> used_credit_usdc := 100 \<rparr>],
          transactions :=
            [\<lparr>tx_id = ''t1'', agent_id = ''a1'', merchant_id = Some ''m1'',
              recipient_agent_id = None, amount_usdc = 100, fee_usdc = 3 / 2,
              net_amount_usdc = 197 / 2, tx_status = signing,
              tx_type = agent_to_merchant, tx_hash = None,
              recipient_address = ''0xbb'', memo = None,
              permission_checks =
                \<lparr>creditCheck = True, sanctionsCheck = True,
                 merchantCheck = True, kyaCheck = True, riskCheck = True,
                 allPassed = True, failureReasons = []\<rparr>,
              idempotency_key = ''k1'', settled = False\<rparr>],
          vault := (vault dbA)\<lparr> total_lent_usdc := 197 / 2 \<rparr> \<rparr>)"
  by (simp add: engine_defs scenario_defs string_values double_values Let_def)

lemma dbRecorded_eq:
  "dbRecorded =
     dbA\<lparr> agents := [agentA\<lparr> used_credit_usdc := 100 \<rparr>],
          transactions :=
            [\<lparr>tx_id = ''t1'', agent_id = ''a1'', merchant_id = Some ''m1'',
              recipient_agent_id = None, amount_usdc = 100, fee_usdc = 3 / 2,
              net_amount_usdc = 197 / 2, tx_status = signing,
              tx_type = agent_to_merchant, tx_hash = None,
              recipient_address = ''0xbb'', memo = None,
              permission_checks =
                \<lparr>creditCheck = True, sanctionsCheck = True,
                 merchantCheck = True, kyaCheck = True, riskCheck = True,
                 allPassed = True, failureReasons = []\<rparr>,
              idempotency_key = ''k1'', settled = False\<rparr>],
          vault := (vault dbA)\<lparr> total_lent_usdc := 197 / 2 \<rparr> \<rparr>"
  by (simp add: dbRecorded_def payAwait)

lemma repayRecorded:
  "processRepayment envRepay ''a1'' 100 ''0xh'' dbRecorded =
     (Inr \<lparr> repaymentId = ''r1'', rr_amountUsdc = 100, newBalance = 0 \<rparr>,
      dbRecorded\<lparr> agents := [agentA],
                  repayments := [\<lparr> rp_id = ''r1'', rp_agent_id = ''a1'', rp_amount_usdc = 100,
                                   rp_tx_hash = ''0xh'' \<rparr>],
                  vault := (vault dbA)\<lparr> total_lent_usdc := - (3 / 2) \<rparr> \<rparr>)"
  by (simp add: dbRecorded_eq engine_defs scenario_defs double_values Let_def)

lemma run_opsPayRepay:
  "run opsPayRepay dbA =
     dbRecorded\<lparr> agents := [agentA],
                  repayments := [\<lparr> rp_id = ''r1'', rp_agent_id = ''a1'', rp_amount_usdc = 100,
                                   rp_tx_hash = ''0xh'' \<rparr>],
                  vault := (vault dbA)\<lparr> total_lent_usdc := - (3 / 2) \<rparr> \<rparr>"
proof -
  have a: "step (Pay envConfirmed reqAwait) dbA = dbRecorded"
    by (simp only: dbRecorded_def)
  have b: "step (Repay envRepay ''a1'' 100 ''0xh'') dbRecorded =
     dbRecorded\<lparr> agents := [agentA],
                  repayments := [\<lparr> rp_id = ''r1'', rp_agent_id = ''a1'', rp_amount_usdc = 100,
                                   rp_tx_hash = ''0xh'' \<rparr>],
                  vault := (vault dbA)\<lparr> total_lent_usdc := - (3 / 2) \<rparr> \<rparr>"
    by (simp add: repayRecorded)
  show ?thesis by (simp only: opsPayRepay_def run.simps a b)
qed

lemma payFirst:
  "processPayment envConfirmed reqFirst dbLimit =
    (Inr \<lparr> transactionId = ''t1'', res_status = signing,
           permissionChecks =
             \<lparr>creditCheck = True, sanctionsCheck = True, merchantCheck = True,
              kyaCheck = True, riskCheck = True, allPassed = True, failureReasons = []\<rparr>,
           feeUsdc = 1534826753007865 / 144115188075855872,
           netAmountUsdc = 787398099850389 / 1125899906842624,
           mpcSignatureId = None, txHash = None, awaitingAgentSignature = Some True \<rparr>,
     dbA\<lparr> agents := [agentA\<lparr> credit_limit_usdc := 5685794529555251 / 562949953421312,
                               used_credit_usdc := 799388933858263 / 1125899906842624 \<rparr>],
          transactions :=
            [\<lparr>tx_id = ''t1'', agent_id = ''a1'', merchant_id = Some ''m1'',
              recipient_agent_id = None, amount_usdc = 799388933858263 / 1125899906842624,
              fee_usdc = 1534826753007865 / 144115188075855872,
              net_amount_usdc = 787398099850389 / 1125899906842624, tx_status = signing,
              tx_type = agent_to_merchant, tx_hash = None,
              recipient_address = ''0xbb'', memo = None,
              permission_checks =
                \<lparr>creditCheck = True, sanctionsCheck = True,
                 merchantCheck = True, kyaCheck = True, riskCheck = True,
                 allPassed = True, failureReasons = []\<rparr>,
              idempotency_key = ''k1'', settled = False\<rparr>],
          vault := (vault dbA)\<lparr> total_lent_usdc := 787398099850389 / 1125899906842624 \<rparr> \<rparr>)"
  by (simp add: engine_defs scenario_defs string_values double_values Let_def)

lemma dbFirst_eq:
  "dbFirst =
     dbA\<lparr> agents := [agentA\<lparr> credit_limit_usdc := 5685794529555251 / 562949953421312,
                               used_credit_usdc := 799388933858263 / 1125899906842624 \<rparr>],
          transactions :=
            [\<lparr>tx_id = ''t1'', agent_id = ''a1'', merchant_id = Some ''m1'',
              recipient_agent_id = None, amount_usdc = 799388933858263 / 1125899906842624,
              fee_usdc = 1534826753007865 / 144115188075855872,
              net_amount_usdc = 787398099850389 / 1125899906842624, tx_status = signing,
              tx_type = agent_to_merchant, tx_hash = None,
              recipient_address = ''0xbb'', memo = None,
              permission_checks =
                \<lparr>creditCheck = True, sanctionsCheck = True,
                 merchantCheck = True, kyaCheck = True, riskCheck = True,
                 allPassed = True, failureReasons = []\<rparr>,
              idempotency_key = ''k1'', settled = False\<rparr>],
          vault := (vault dbA)\<lparr> total_lent_usdc := 787398099850389 / 1125899906842624 \<rparr> \<rparr>"
  by (simp add: dbFirst_def payFirst)

lemma paySecond:
  "processPayment envSecond reqSecond dbFirst =
    (Inr \<lparr> transactionId = ''t2'', res_status = signing,
           permissionChecks =
             \<lparr>creditCheck = True, sanctionsCheck = True, merchantCheck = True,
              kyaCheck = True, riskCheck = True, allPassed = True, failureReasons = []\<rparr>,
           feeUsdc = 5074656060121075 / 36028797018963968,
           netAmountUsdc = 650851070210841 / 70368744177664,
           mpcSignatureId = None, txHash = None, awaitingAgentSignature = Some True \<rparr>,
     dbA\<lparr> agents := [agentA\<lparr> credit_limit_usdc := 5685794529555251 / 562949953421312,
                               used_credit_usdc := 1421448632388813 / 140737488355328 \<rparr>],
          transactions :=
            [\<lparr>tx_id = ''t1'', agent_id = ''a1'', merchant_id = Some ''m1'',
              recipient_agent_id = None, amount_usdc = 799388933858263 / 1125899906842624,
              fee_usdc = 1534826753007865 / 144115188075855872,
              net_amount_usdc = 787398099850389 / 1125899906842624, tx_status = signing,
              tx_type = agent_to_merchant, tx_hash = None,
              recipient_address = ''0xbb'', memo = None,
              permission_checks =
                \<lparr>creditCheck = True, sanctionsCheck = True,
                 merchantCheck = True, kyaCheck = True, riskCheck = True,
                 allPassed = True, failureReasons = []\<rparr>,
              idempotency_key = ''k1'', settled = False\<rparr>,
             \<lparr>tx_id = ''t2'', agent_id = ''a1'', merchant_id = Some ''m1'',
              recipient_agent_id = None, amount_usdc = 660762507828265 / 70368744177664,
              fee_usdc = 5074656060121075 / 36028797018963968,
              net_amount_usdc = 650851070210841 / 70368744177664, tx_status = signing,
              tx_type = agent_to_merchant, tx_hash = None,
              recipient_address = ''0xbb'', memo = None,
              permission_checks =
                \<lparr>creditCheck = True, sanctionsCheck = True,
                 merchantCheck = True, kyaCheck = True, riskCheck = True,
                 allPassed = True, failureReasons = []\<rparr>,
              idempotency_key = ''k2'', settled = False\<rparr>],
          vault := (vault dbA)\<lparr> total_lent_usdc := 2800253805805961 / 281474976710656 \<rparr> \<rparr>)"
  by (simp add: dbFirst_eq)
     (simp add: engine_defs scenario_defs string_values double_values Let_def)

lemma run_opsLimit: "run opsLimit dbLimit = snd (processPayment envSecond reqSecond dbFirst)"
  by (simp add: opsLimit_def dbFirst_def)




lemma run_opsYield:
  "run opsYield db0 =
     db0\<lparr> vault := \<lparr> total_deposits_usdc = 21, total_lent_usdc = 0,
                     total_fees_earned_usdc = 2, total_shares = 19 \<rparr>,
          lender_positions :=
            [\<lparr> lp_id = ''p1'', lender_address = ''0xl1'', deposited_usdc = 19,
               shares_owned = 19, earned_yield_usdc = 0, deposit_tx_hash = ''0xd1'' \<rparr>] \<rparr>"
  by (simp add: opsYield_def vault_defs db0_def string_values double_values Let_def)

lemma run_opsTight:
  "dbTight =
     db0\<lparr> vault := \<lparr> total_deposits_usdc = 5685794529555251 / 562949953421312,
                     total_lent_usdc = 799388933858263 / 1125899906842624,
                     total_fees_earned_usdc = 0,
                     total_shares = 5685794529555251 / 562949953421312 \<rparr>,
          lender_positions :=
            [\<lparr> lp_id = ''p1'', lender_address = ''0xl1'',
               deposited_usdc = 5685794529555251 / 562949953421312,
               shares_owned = 5685794529555251 / 562949953421312,
               earned_yield_usdc = 0, deposit_tx_hash = ''0xd1'' \<rparr>] \<rparr>"
  by (simp add: dbTight_def opsTight_def vault_defs db0_def string_values double_values Let_def)

lemma reserveTight:
  "reserveLiquidity (fl (939 / 100)) dbTight =
     (Inr (), dbTight\<lparr> vault := (vault dbTight)\<lparr> total_lent_usdc :=
                                    1421448632388813 / 140737488355328 \<rparr> \<rparr>)"
  by (simp add: run_opsTight reserveLiquidity_def vault_updateLent_def db0_def double_values)

lemma payUnknownMerchant:
  "processPayment envConfirmed reqUnknownMerchant dbA
     = (Inl (SqliteError ''FOREIGN KEY constraint failed''), dbA)"
  by (simp add: engine_defs scenario_defs string_values double_values Let_def)

lemma payUnknownMerchantListed:
  "processPayment envConfirmed reqUnknownMerchantListed dbA
     = (Inl (SqliteError ''FOREIGN KEY constraint failed''),
        dbA\<lparr> sanctioned_addresses :=
               [\<lparr> sa_address = ''0x8589427373d6d84e98730d7795d8f6f8731fda16'',
                  sa_source = ''ofac-sdn'' \<rparr>] \<rparr>)"
  by (simp add: engine_defs scenario_defs string_values double_values Let_def)

subsection \<open>The vault row outside reservations and returns\<close>

lemma burnPositions_vault:
  "burnPositions p ps r t d = Inr (r', t', d') \<Longrightarrow> vault d' = vault d"
proof (induction ps arbitrary: r t d)
  case Nil
  then show ?case by simp
next
  case (Cons x xs)
  show ?case
  proof (cases "r \<le> 0 \<or> shares_owned x = 0")
    case True
    then show ?thesis using Cons.prems by (auto split: if_splits)
  next
    case False
    define b where "b = min (shares_owned x) r"
    define ov where "ov = fmul (fdiv b (shares_owned x)) (deposited_usdc x)"
    have "burnPositions p xs (fsub r b) (fadd t ov)
             (lender_updateShares b (fsub (fmul b p) ov) (lp_id x) d) = Inr (r', t', d')"
      using Cons.prems False by (simp add: Let_def b_def ov_def)
    from Cons.IH [OF this] show ?thesis by (simp add: lender_updateShares_def)
  qed
qed

lemma lent_untouched:
  "total_lent_usdc (vault (snd (processDeposit pid addr a h d))) = total_lent_usdc (vault d)"
  "total_lent_usdc (vault (snd (processWithdrawal addr sh d))) = total_lent_usdc (vault d)"
  "total_lent_usdc (vault (processFeeIntoVault f d)) = total_lent_usdc (vault d)"
proof -
  show "total_lent_usdc (vault (snd (processDeposit pid addr a h d))) = total_lent_usdc (vault d)"
    by (simp add: processDeposit_def lender_create_def vault_updateDeposit_def Let_def)
  show "total_lent_usdc (vault (processFeeIntoVault f d)) = total_lent_usdc (vault d)"
    by (simp add: processFeeIntoVault_def vault_addFees_def)
  show "total_lent_usdc (vault (snd (processWithdrawal addr sh d))) = total_lent_usdc (vault d)"
  proof (cases "burnPositions (getSharePrice d) (lender_getByAddress (toLowerCase addr) d) sh 0 d")
    case (Inl e)
    then show ?thesis by (simp add: processWithdrawal_def Let_def)
  next
    case (Inr t)
    obtain r' t' d1 where t: "t = (r', t', d1)" by (cases t) auto
    have "vault d1 = vault d" using burnPositions_vault [OF Inr [unfolded t]] .
    then show ?thesis using Inr t
      by (simp add: processWithdrawal_def vault_updateWithdraw_def Let_def)
  qed
qed

lemma payment_vault:
  assumes first: "tx_getByIdempotencyKey (idempotencyKey req) d = None"
    and r: "processPayment env req d = (Inr res, d')"
  shows "(res_status res = rejected \<and> vault d' = vault d)
       \<or> (res_status res = signing
          \<and> netOf env req d \<le> fsub (total_deposits_usdc (vault d)) (total_lent_usdc (vault d))
          \<and> vault d' = (vault d)\<lparr>total_lent_usdc :=
                                   fadd (total_lent_usdc (vault d)) (netOf env req d)\<rparr>)"
proof (cases "agent_getById (agentId req) d")
  case None
  then show ?thesis using r processPayment_no_agent [OF first None, of env] by simp
next
  case (Some a)
  note eq = processPayment_new [OF first Some, of env]
  show ?thesis
  proof (cases "tx_create (txRow env req a d) (screened req d)")
    case (Inl e)
    then show ?thesis using r unfolding eq by simp
  next
    case (Inr d1)
    have v1: "vault d1 = vault d" using tx_create_frame [OF Inr] by simp
    show ?thesis
    proof (cases "allPassed (verdictOf req a d)")
      case False
      then show ?thesis using r v1 unfolding eq Inr by auto
    next
      case True
      have "processPayment_reserve env req a (uuid env) (verdictOf req a d)
              (feeOf env req d) (netOf env req d) d1 = (Inr res, d')"
        using r True unfolding eq Inr by simp
      from reserve_Inr [OF this] show ?thesis by (simp add: v1)
    qed
  qed
qed

lemma repayment_vault:
  assumes g: "agent_getById i d = Some ag"
    and r: "processRepayment env i amt h d = (Inr rr, d')"
  shows "rr_amountUsdc rr = min amt (used_credit_usdc ag)
       \<and> vault d' = (vault d)\<lparr>total_lent_usdc :=
                                fsub (total_lent_usdc (vault d)) (min amt (used_credit_usdc ag))\<rparr>"
proof -
  define m where "m = min amt (used_credit_usdc ag)"
  define row where "row = \<lparr> rp_id = uuid env, rp_agent_id = i, rp_amount_usdc = m, rp_tx_hash = h \<rparr>"
  note eq = processRepayment_result [OF g, of env amt h, folded m_def, folded row_def]
  have pos: "\<not> m \<le> 0" using r unfolding eq by (auto split: if_splits)
  obtain d1 where cr: "repayment_create row d = Inr d1"
    using r pos unfolding eq by (cases "repayment_create row d") auto
  have v1: "vault d1 = vault d" using repayment_create_frame [OF cr] by simp
  show ?thesis
    using r pos cr v1 unfolding eq m_def [symmetric]
    by (auto split: if_splits)
qed

section \<open>Claims\<close>

subsection \<open>C10: reserving liquidity\<close>

text \<open>
  C10, as amended. \<^verbatim>\<open>reserveLiquidity(amount)\<close> throws the insufficient-liquidity
  error exactly when \<open>amount > availableLiquidity\<close>, where \<open>availableLiquidity\<close> is
  the double \<open>totalDeposits - totalLent\<close> (the difference rounded), and then leaves
  the state as it was; otherwise it sets \<open>totalLent\<close> to the double
  \<open>totalLent + amount\<close> (the sum rounded) and changes nothing else. The sign of the
  amount is not checked: every amount that is not above \<open>availableLiquidity\<close>, zero and
  negative ones included, succeeds and is added in this way. A negative amount never
  raises \<open>totalLent\<close> (a double, as every stored value is).
\<close>

theorem reserveLiquidity_rounded:
  "(isl (fst (reserveLiquidity a d))
      \<longleftrightarrow> a > fsub (total_deposits_usdc (vault d)) (total_lent_usdc (vault d)))
   \<and> (isl (fst (reserveLiquidity a d)) \<longrightarrow>
        reserveLiquidity a d = (Inl (Error ''Insufficient vault liquidity''), d))
   \<and> (\<not> isl (fst (reserveLiquidity a d)) \<longrightarrow>
        reserveLiquidity a d =
          (Inr (), d\<lparr>vault := (vault d)\<lparr>total_lent_usdc := fadd (total_lent_usdc (vault d)) a\<rparr>\<rparr>))
   \<and> (a < 0 \<and> fl (total_lent_usdc (vault d)) = total_lent_usdc (vault d) \<longrightarrow>
        total_lent_usdc (vault (snd (reserveLiquidity a d))) \<le> total_lent_usdc (vault d))"
proof -
  have "a < 0 \<and> fl (total_lent_usdc (vault d)) = total_lent_usdc (vault d) \<longrightarrow>
        fadd (total_lent_usdc (vault d)) a \<le> total_lent_usdc (vault d)"
    using fadd_negative [of a "total_lent_usdc (vault d)"] by blast
  then show ?thesis
    by (simp add: reserveLiquidity_def getVaultState_def vault_updateLent_def Let_def)
qed

text \<open>
  At \<open>-5\<close> on the scenario vault the reservation succeeds and lowers \<open>totalLent\<close>;
  at 50001 it throws.
\<close>

theorem reserveLiquidity_rounded_witness:
  "\<not> isl (fst (reserveLiquidity (- 5) dbA))
   \<and> (- 5 :: number) < 0 \<and> fl (total_lent_usdc (vault dbA)) = total_lent_usdc (vault dbA)
   \<and> reserveLiquidity (- 5) dbA = (Inr (), dbA\<lparr>vault := (vault dbA)\<lparr>total_lent_usdc := - 5\<rparr>\<rparr>)
   \<and> total_lent_usdc (vault (snd (reserveLiquidity (- 5) dbA))) \<le> total_lent_usdc (vault dbA)
   \<and> isl (fst (reserveLiquidity 50001 dbA))
   \<and> reserveLiquidity 50001 dbA = (Inl (Error ''Insufficient vault liquidity''), dbA)"
  using reserveLiquidity_rounded [of "- 5" dbA] reserveLiquidity_rounded [of 50001 dbA]
  by (simp add: dbA_def double_values)

text \<open>
  The claim as stated fails twice. With \<^verbatim>\<open>10.1\<close> deposited and \<^verbatim>\<open>0.71\<close> lent,
  the amount \<^verbatim>\<open>9.39\<close> is above \<open>totalDeposits - totalLent\<close> (by
  \<open>1 / 1125899906842624\<close>), and the reservation succeeds, because the difference
  rounds to \<^verbatim>\<open>9.39\<close>. With \<^verbatim>\<open>98.5\<close> lent, the negative amount
  \<^verbatim>\<open>-1e-20\<close> succeeds and \<open>totalLent\<close> is not lower afterwards.
\<close>

theorem reserveLiquidity_counterexample:
  "fl (939 / 100) > total_deposits_usdc (vault dbTight) - total_lent_usdc (vault dbTight)
   \<and> \<not> isl (fst (reserveLiquidity (fl (939 / 100)) dbTight))
   \<and> fl (- 1 / 10 ^ 20) < 0
   \<and> \<not> isl (fst (reserveLiquidity (fl (- 1 / 10 ^ 20)) dbRecorded))
   \<and> total_lent_usdc (vault (snd (reserveLiquidity (fl (- 1 / 10 ^ 20)) dbRecorded)))
       = total_lent_usdc (vault dbRecorded)"
  by (simp add: reserveTight)
     (simp add: run_opsTight dbRecorded_eq reserveLiquidity_def vault_updateLent_def
        dbA_def db0_def double_values)

subsection \<open>C8: signing does not validate the shards\<close>

text \<open>
  C8, as amended. \<^verbatim>\<open>signWithMPC\<close> decrypts the server shard, reads both shards as
  hexadecimal integers and reconstructs \<open>k = (serverShard + agentShard) mod n\<close> without
  checking that either shard lies in \<open>[1, n - 1]\<close>: whenever the decryption succeeds and
  both shards are hexadecimal, the outcome is that of the library's signature (requested
  in low-S form) under \<open>k\<close>, whatever the shards are.
\<close>

theorem signWithMPC_no_range_check:
  assumes "decryptShard enc key = Inr sh" and "bigIntOfHex sh = Inr sv" and "bigIntOfHex ah = Inr av"
  shows "signWithMPC decryptShard signAsync mh enc key ah =
           (case signAsync mh ((sv + av) mod curve_n) of
              Inl e \<Rightarrow> Inl e
            | Inr sig \<Rightarrow> Inr \<lparr> sig_r = lib_r sig, sig_s = lib_s sig,
                              sig_v = 27 + (case lib_recovery sig of None \<Rightarrow> 0 | Some b \<Rightarrow> b) \<rparr>)"
  using assms by (simp add: signWithMPC_def mod_bigint_eq curve_n_pos)

theorem signWithMPC_no_range_check_witness:
  "decryptPlain ''05'' ''k'' = Inr ''05'' \<and> bigIntOfHex ''05'' = Inr 5 \<and> bigIntOfHex ''0'' = Inr 0
   \<and> signWithMPC decryptPlain signEcho ''ab'' ''05'' ''k'' ''0'' = Inr \<lparr> sig_r = 5, sig_s = 1, sig_v = 27 \<rparr>"
  using signWithMPC_no_range_check [of decryptPlain "''05''" "''k''" "''05''" 5 "''0''" 0 signEcho "''ab''"]
  by (simp add: decryptPlain_def signEcho_def hex0 hex05 curve_n_def)

text \<open>
  The claim as stated fails: the agent shard \<open>0\<close> is outside \<open>[1, n - 1]\<close>, and the
  call returns a signature (under the key 5, the server shard alone).
\<close>

theorem signWithMPC_counterexample:
  "bigIntOfHex ''0'' = Inr 0 \<and> \<not> (1 \<le> (0::int))
   \<and> signWithMPC decryptPlain signEcho ''ab'' ''05'' ''k'' ''0'' = Inr \<lparr> sig_r = 5, sig_s = 1, sig_v = 27 \<rparr>"
  by (simp add: signWithMPC_def decryptPlain_def signEcho_def hex0 hex05 mod_bigint_eq curve_n_pos)
    (simp add: curve_n_def)

subsection \<open>C7: the yield law\<close>

text \<open>
  C7. With \<open>D = 19\<close> and \<open>F = 2\<close> the law fails in the code. The deposit into the
  empty vault issues 19 shares and the fee brings the deposits to 21, all of it
  available. The share price is the double \<open>21 / 19\<close>, and 19 shares at that price
  are the double \<^verbatim>\<open>21.000000000000004\<close>, which is above the available 21: the
  withdrawal of all shares throws the insufficient-liquidity error and pays nothing.
\<close>

theorem yield_law_fails:
  "fst (processDeposit ''p1'' ''0xL1'' 19 ''0xd1'' db0) =
      Inr \<lparr> lp_id = ''p1'', lender_address = ''0xl1'', deposited_usdc = 19, shares_owned = 19,
            earned_yield_usdc = 0, deposit_tx_hash = ''0xd1'' \<rparr>
   \<and> total_shares (vault (run opsYield db0)) = 19
   \<and> total_deposits_usdc (vault (run opsYield db0)) = 21
   \<and> availableLiquidityUsdc (getVaultState (run opsYield db0)) = 21
   \<and> getSharePrice (run opsYield db0) = 4977662746041075 / 4503599627370496
   \<and> fmul 19 (getSharePrice (run opsYield db0)) = 5910974510923777 / 281474976710656
   \<and> (21 :: number) < 5910974510923777 / 281474976710656
   \<and> processWithdrawal ''0xL1'' 19 (run opsYield db0)
        = (Inl (Error ''Insufficient vault liquidity''), run opsYield db0)"
  by (simp add: run_opsYield)
     (simp add: vault_defs db0_def string_values double_values Let_def)

subsection \<open>C1: the credit invariant\<close>

text \<open>
  C1. The invariant fails in the code. An agent has the limit \<^verbatim>\<open>10.1\<close> and no
  usage. A payment of \<^verbatim>\<open>0.71\<close> that awaits the shard leaves \<^verbatim>\<open>0.71\<close> used.
  A payment of \<^verbatim>\<open>9.39\<close> then passes the credit check, because the double
  \<^verbatim>\<open>10.1 - 0.71\<close> is \<^verbatim>\<open>9.39\<close>, and the debit stores the double
  \<^verbatim>\<open>0.71 + 9.39\<close>, which is \<^verbatim>\<open>10.100000000000001\<close>: the usage is above the
  limit when the call returns.
\<close>

theorem credit_limit_exceeded:
  "credit_ok dbLimit
   \<and> map_sum id res_status (fst (processPayment envConfirmed reqFirst dbLimit)) = Inr signing
   \<and> fsub (fl (101 / 10)) (fl (71 / 100)) = fl (939 / 100)
   \<and> fl (101 / 10) < fadd (fl (71 / 100)) (fl (939 / 100))
   \<and> map_sum id (creditCheck \<circ> permissionChecks)
        (fst (processPayment envSecond reqSecond dbFirst)) = Inr True
   \<and> map_sum id res_status (fst (processPayment envSecond reqSecond dbFirst)) = Inr signing
   \<and> map credit_limit_usdc (agents (run opsLimit dbLimit)) = [5685794529555251 / 562949953421312]
   \<and> map used_credit_usdc (agents (run opsLimit dbLimit)) = [1421448632388813 / 140737488355328]
   \<and> \<not> credit_ok (run opsLimit dbLimit)"
  by (simp add: run_opsLimit paySecond payFirst)
     (simp add: credit_ok_def scenario_defs double_values)

subsection \<open>C3: rollback after a failed broadcast\<close>


subsection \<open>C2: the vault invariant\<close>

text \<open>
  C2, as amended. The lower bound \<open>0 \<le> totalLent\<close> is not maintained: no operation
  checks it. What the operations do to \<open>totalLent\<close>, in the double arithmetic of the
  code, is this. A reservation throws and changes nothing when the amount is above
  \<open>availableLiquidity\<close>, the double \<open>totalDeposits - totalLent\<close>, and otherwise
  sets \<open>totalLent\<close> to the double \<open>totalLent + amount\<close>. A return sets it to the
  double \<open>totalLent - amount\<close>, with no check. A withdrawal throws and changes nothing
  when the shares at the share price are above \<open>availableLiquidity\<close>. Deposits,
  withdrawals and fee injections leave \<open>totalLent\<close> as it is. A first payment that
  returns a result either was rejected and left the vault row as it was, or is in
  \<^verbatim>\<open>signing\<close>, its net amount was not above \<open>availableLiquidity\<close> and was
  reserved. A repayment that returns a result returned
  \<open>actualRepaid = min amount usedCredit\<close>, a gross amount, to the vault.
\<close>

theorem vault_gates:
  "reserveLiquidity a d =
     (if a > fsub (total_deposits_usdc (vault d)) (total_lent_usdc (vault d))
      then (Inl (Error ''Insufficient vault liquidity''), d)
      else (Inr (), d\<lparr>vault := (vault d)\<lparr>total_lent_usdc := fadd (total_lent_usdc (vault d)) a\<rparr>\<rparr>))
   \<and> returnLiquidity a d =
       d\<lparr>vault := (vault d)\<lparr>total_lent_usdc := fsub (total_lent_usdc (vault d)) a\<rparr>\<rparr>
   \<and> (fmul sh (getSharePrice d) > fsub (total_deposits_usdc (vault d)) (total_lent_usdc (vault d)) \<longrightarrow>
        processWithdrawal addr sh d = (Inl (Error ''Insufficient vault liquidity''), d))
   \<and> total_lent_usdc (vault (snd (processDeposit pid addr a h d))) = total_lent_usdc (vault d)
   \<and> total_lent_usdc (vault (snd (processWithdrawal addr sh d))) = total_lent_usdc (vault d)
   \<and> total_lent_usdc (vault (processFeeIntoVault a d)) = total_lent_usdc (vault d)
   \<and> (tx_getByIdempotencyKey (idempotencyKey req) d = None
        \<and> processPayment env req d = (Inr res, d') \<longrightarrow>
        (res_status res = rejected \<and> vault d' = vault d)
        \<or> (res_status res = signing
           \<and> netOf env req d \<le> fsub (total_deposits_usdc (vault d)) (total_lent_usdc (vault d))
           \<and> vault d' = (vault d)\<lparr>total_lent_usdc :=
                                    fadd (total_lent_usdc (vault d)) (netOf env req d)\<rparr>))
   \<and> (agent_getById i d = Some ag \<and> processRepayment envr i amt h d = (Inr rr, d'') \<longrightarrow>
        rr_amountUsdc rr = min amt (used_credit_usdc ag)
        \<and> vault d'' = (vault d)\<lparr>total_lent_usdc :=
                                  fsub (total_lent_usdc (vault d)) (min amt (used_credit_usdc ag))\<rparr>)"
proof -
  have c1: "reserveLiquidity a d =
     (if a > fsub (total_deposits_usdc (vault d)) (total_lent_usdc (vault d))
      then (Inl (Error ''Insufficient vault liquidity''), d)
      else (Inr (), d\<lparr>vault := (vault d)\<lparr>total_lent_usdc := fadd (total_lent_usdc (vault d)) a\<rparr>\<rparr>))"
    by (simp add: reserveLiquidity_def vault_updateLent_def Let_def)
  have c2: "returnLiquidity a d =
       d\<lparr>vault := (vault d)\<lparr>total_lent_usdc := fsub (total_lent_usdc (vault d)) a\<rparr>\<rparr>"
    by (simp add: returnLiquidity_def vault_returnLent_def)
  have c3: "fmul sh (getSharePrice d) > fsub (total_deposits_usdc (vault d)) (total_lent_usdc (vault d)) \<longrightarrow>
        processWithdrawal addr sh d = (Inl (Error ''Insufficient vault liquidity''), d)"
    by (simp add: processWithdrawal_def Let_def)
  have c7: "tx_getByIdempotencyKey (idempotencyKey req) d = None
        \<and> processPayment env req d = (Inr res, d') \<longrightarrow>
        (res_status res = rejected \<and> vault d' = vault d)
        \<or> (res_status res = signing
           \<and> netOf env req d \<le> fsub (total_deposits_usdc (vault d)) (total_lent_usdc (vault d))
           \<and> vault d' = (vault d)\<lparr>total_lent_usdc :=
                                    fadd (total_lent_usdc (vault d)) (netOf env req d)\<rparr>)"
    using payment_vault [of req d env res d'] by blast
  have c8: "agent_getById i d = Some ag \<and> processRepayment envr i amt h d = (Inr rr, d'') \<longrightarrow>
        rr_amountUsdc rr = min amt (used_credit_usdc ag)
        \<and> vault d'' = (vault d)\<lparr>total_lent_usdc :=
                                  fsub (total_lent_usdc (vault d)) (min amt (used_credit_usdc ag))\<rparr>"
    using repayment_vault [of i d ag envr amt h rr d''] by blast
  show ?thesis
    using c1 c2 c3 c7 c8 lent_untouched(1) [of pid addr a h d] lent_untouched(2) [of addr sh d]
      lent_untouched(3) [of a d]
    by blast
qed

text \<open>
  On the scenario database: the payment of 100 at 150 basis points that awaits its shard
  reserves the net amount \<^verbatim>\<open>98.5\<close>, the repayment of 100 returns the gross amount and
  leaves \<open>totalLent\<close> at \<^verbatim>\<open>-1.5\<close>; a reservation of 50001 throws; and with 19
  shares at \<open>21 / 19\<close> against 21 available the withdrawal throws.
\<close>

theorem vault_gates_witness:
  "tx_getByIdempotencyKey (idempotencyKey reqAwait) dbA = None
   \<and> fst (processPayment envConfirmed reqAwait dbA) =
        Inr \<lparr> transactionId = ''t1'', res_status = signing,
              permissionChecks =
                \<lparr>creditCheck = True, sanctionsCheck = True, merchantCheck = True,
                 kyaCheck = True, riskCheck = True, allPassed = True, failureReasons = []\<rparr>,
              feeUsdc = 3 / 2, netAmountUsdc = 197 / 2, mpcSignatureId = None, txHash = None,
              awaitingAgentSignature = Some True \<rparr>
   \<and> snd (processPayment envConfirmed reqAwait dbA) = dbRecorded
   \<and> netOf envConfirmed reqAwait dbA = 197 / 2
   \<and> vault dbRecorded = (vault dbA)\<lparr>total_lent_usdc := 197 / 2\<rparr>
   \<and> agent_getById ''a1'' dbRecorded = Some (agentA\<lparr>used_credit_usdc := 100\<rparr>)
   \<and> fst (processRepayment envRepay ''a1'' 100 ''0xh'' dbRecorded) =
        Inr \<lparr> repaymentId = ''r1'', rr_amountUsdc = 100, newBalance = 0 \<rparr>
   \<and> vault (snd (processRepayment envRepay ''a1'' 100 ''0xh'' dbRecorded)) =
        (vault dbA)\<lparr>total_lent_usdc := - (3 / 2)\<rparr>
   \<and> reserveLiquidity 50001 dbA = (Inl (Error ''Insufficient vault liquidity''), dbA)
   \<and> fmul 19 (getSharePrice (run opsYield db0))
        > fsub (total_deposits_usdc (vault (run opsYield db0))) (total_lent_usdc (vault (run opsYield db0)))
   \<and> processWithdrawal ''0xL1'' 19 (run opsYield db0)
        = (Inl (Error ''Insufficient vault liquidity''), run opsYield db0)"
proof -
  have h1: "tx_getByIdempotencyKey (idempotencyKey reqAwait) dbA = None"
    by (simp add: tx_getByIdempotencyKey_def scenario_defs)
  have h2: "processPayment envConfirmed reqAwait dbA =
        (Inr \<lparr> transactionId = ''t1'', res_status = signing,
              permissionChecks =
                \<lparr>creditCheck = True, sanctionsCheck = True, merchantCheck = True,
                 kyaCheck = True, riskCheck = True, allPassed = True, failureReasons = []\<rparr>,
              feeUsdc = 3 / 2, netAmountUsdc = 197 / 2, mpcSignatureId = None, txHash = None,
              awaitingAgentSignature = Some True \<rparr>, dbRecorded)"
    by (simp add: dbRecorded_eq payAwait)
  have n: "netOf envConfirmed reqAwait dbA = 197 / 2"
    by (simp add: netOf_def feeOf_def truthy_def merchant_getById_def scenario_defs double_values)
  have h3: "agent_getById ''a1'' dbRecorded = Some (agentA\<lparr>used_credit_usdc := 100\<rparr>)"
    by (simp add: dbRecorded_eq agent_getById_def scenario_defs)
  have h4: "processRepayment envRepay ''a1'' 100 ''0xh'' dbRecorded =
     (Inr \<lparr> repaymentId = ''r1'', rr_amountUsdc = 100, newBalance = 0 \<rparr>,
      dbRecorded\<lparr> agents := [agentA],
                  repayments := [\<lparr> rp_id = ''r1'', rp_agent_id = ''a1'', rp_amount_usdc = 100,
                                   rp_tx_hash = ''0xh'' \<rparr>],
                  vault := (vault dbA)\<lparr> total_lent_usdc := - (3 / 2) \<rparr> \<rparr>)"
    by (rule repayRecorded)
  have h5: "fmul 19 (getSharePrice (run opsYield db0))
        > fsub (total_deposits_usdc (vault (run opsYield db0))) (total_lent_usdc (vault (run opsYield db0)))"
    by (simp add: run_opsYield getSharePrice_def Let_def) (simp add: db0_def double_values)
  have v: "vault dbRecorded = (vault dbA)\<lparr>total_lent_usdc := 197 / 2\<rparr>"
    by (simp add: dbRecorded_eq)
  show ?thesis
    using vault_gates [where a = 50001 and d = dbA and req = reqAwait and env = envConfirmed
                         and d' = dbRecorded]
      vault_gates [where d = dbRecorded and i = "''a1''" and envr = envRepay and amt = 100
                     and h = "''0xh''"]
      vault_gates [where d = "run opsYield db0" and sh = 19 and addr = "''0xL1''"]
      h1 h2 n h3 h4 h5 v
    by (simp add: dbA_def agentA_def double_values)
qed

text \<open>
  The invariant as the claim states it fails. The payment of 100 reserves the net
  amount \<^verbatim>\<open>98.5\<close>, the repayment returns the gross amount 100, and \<open>totalLent\<close>
  ends at \<^verbatim>\<open>-1.5\<close>. And with \<^verbatim>\<open>10.1\<close> deposited, the reservations of
  \<^verbatim>\<open>0.71\<close> and \<^verbatim>\<open>9.39\<close> both succeed and leave \<open>totalLent\<close> at
  \<^verbatim>\<open>10.100000000000001\<close>, above \<open>totalDeposits\<close>.
\<close>

theorem vault_invariant_counterexample:
  "vault_ok dbA \<and> \<not> vault_ok (run opsPayRepay dbA)
   \<and> total_lent_usdc (vault (run opsPayRepay dbA)) = - (3 / 2)
   \<and> vault_ok db0 \<and> \<not> vault_ok (run opsReserve db0)
   \<and> total_deposits_usdc (vault (run opsReserve db0)) = 5685794529555251 / 562949953421312
   \<and> total_lent_usdc (vault (run opsReserve db0)) = 1421448632388813 / 140737488355328"
proof -
  have r: "run opsReserve db0 = snd (reserveLiquidity (fl (939 / 100)) dbTight)"
    by (simp add: opsReserve_def dbTight_def opsTight_def)
  show ?thesis
    unfolding r reserveTight
    by (simp add: vault_ok_def run_opsPayRepay) (simp add: run_opsTight scenario_defs)
qed

subsection \<open>C6: repayment\<close>



subsection \<open>C5: scenario A\<close>


subsection \<open>C9: a merchant that does not exist\<close>

text \<open>
  C9, as amended. Take a payment request that names a merchant id for which no merchant
  row exists. If its idempotency key is already stored, the call returns the stored
  snapshot and writes nothing. If the agent does not exist, the call throws the
  agent-not-found error and writes nothing. Otherwise (the transaction id drawn being
  new) the fee is computed from the default rate \<^verbatim>\<open>MERCHANT_FEE_BPS\<close>, the verdict is
  evaluated and its merchant check fails with the reason that the merchant was not
  found, and the insert of the transaction row, whose \<^verbatim>\<open>merchant_id\<close> references
  the merchants table, is refused: the call throws the foreign-key error of the
  database. No agent, merchant, transaction, repayment, vault or lender row has changed
  then; the sanctions table has got the recipient address, with source
  \<^verbatim>\<open>ofac-sdn\<close>, when the address is on the list of sanctioned entities and was not
  in the table.
\<close>

theorem unknown_merchant_insert_fails:
  assumes m: "merchantId req = Some m" "m \<noteq> []"
    and nm: "merchant_getById m d = None"
  shows "(\<forall>t. tx_getByIdempotencyKey (idempotencyKey req) d = Some t \<longrightarrow>
            processPayment env req d = (Inr (snapshotOf t), d))
       \<and> (tx_getByIdempotencyKey (idempotencyKey req) d = None
            \<and> agent_getById (agentId req) d = None \<longrightarrow>
            processPayment env req d = (Inl (Error ''Agent not found''), d))
       \<and> (\<forall>a. tx_getByIdempotencyKey (idempotencyKey req) d = None
              \<and> agent_getById (agentId req) d = Some a
              \<and> uuid env \<notin> set (map tx_id (transactions d)) \<longrightarrow>
            processPayment env req d =
              (Inl (SqliteError ''FOREIGN KEY constraint failed''), screened req d)
            \<and> tx_create (txRow env req a d) (screened req d) =
                Inl (SqliteError ''FOREIGN KEY constraint failed'')
            \<and> fee_usdc (txRow env req a d) =
                fdiv (fmul (amountUsdc req) (MERCHANT_FEE_BPS env)) 10000
            \<and> \<not> merchantCheck (verdictOf req a d)
            \<and> MerchantNotFound m \<in> set (failureReasons (verdictOf req a d)))
       \<and> screened req d =
           (if sanctions_check (toLowerCase (recipientAddress req)) d = None
               \<and> toLowerCase (recipientAddress req) \<in> set KNOWN_SANCTIONED_ENTITIES
            then d\<lparr>sanctioned_addresses :=
                     sanctioned_addresses d @
                       [\<lparr> sa_address = toLowerCase (recipientAddress req),
                          sa_source = ''ofac-sdn'' \<rparr>]\<rparr>
            else d)"
proof -
  have c1: "\<forall>t. tx_getByIdempotencyKey (idempotencyKey req) d = Some t \<longrightarrow>
            processPayment env req d = (Inr (snapshotOf t), d)"
    by (simp add: processPayment_existing)
  have c2: "tx_getByIdempotencyKey (idempotencyKey req) d = None
            \<and> agent_getById (agentId req) d = None \<longrightarrow>
            processPayment env req d = (Inl (Error ''Agent not found''), d)"
    by (simp add: processPayment_no_agent)
  have c3: "\<forall>a. tx_getByIdempotencyKey (idempotencyKey req) d = None
              \<and> agent_getById (agentId req) d = Some a
              \<and> uuid env \<notin> set (map tx_id (transactions d)) \<longrightarrow>
            processPayment env req d =
              (Inl (SqliteError ''FOREIGN KEY constraint failed''), screened req d)
            \<and> tx_create (txRow env req a d) (screened req d) =
                Inl (SqliteError ''FOREIGN KEY constraint failed'')
            \<and> fee_usdc (txRow env req a d) =
                fdiv (fmul (amountUsdc req) (MERCHANT_FEE_BPS env)) 10000
            \<and> \<not> merchantCheck (verdictOf req a d)
            \<and> MerchantNotFound m \<in> set (failureReasons (verdictOf req a d))"
  proof (intro allI impI)
    fix a
    assume h: "tx_getByIdempotencyKey (idempotencyKey req) d = None
              \<and> agent_getById (agentId req) d = Some a
              \<and> uuid env \<notin> set (map tx_id (transactions d))"
    then have first: "tx_getByIdempotencyKey (idempotencyKey req) d = None"
      and g: "agent_getById (agentId req) d = Some a"
      and fresh: "uuid env \<notin> set (map tx_id (transactions d))"
      by simp_all
    note eq = processPayment_new [OF first g, of env]
    have nofk: "\<not> fk_ok (merchant_id (txRow env req a d)) (map m_id (merchants (screened req d)))"
      using m find_None_set [OF nm [unfolded merchant_getById_def]]
      by (auto simp: txRow_def orNull_def truthy_def fk_ok_def)
    have nokey: "idempotency_key (txRow env req a d)
                   \<notin> set (map idempotency_key (transactions (screened req d)))"
      using find_None_set [OF first [unfolded tx_getByIdempotencyKey_def]]
      by (auto simp: txRow_def)
    have id: "tx_id (txRow env req a d) = uuid env" by (simp add: txRow_def)
    have cr: "tx_create (txRow env req a d) (screened req d) =
                Inl (SqliteError ''FOREIGN KEY constraint failed'')"
      using nofk nokey id fresh by (simp add: tx_create_def)
    have p: "processPayment env req d =
               (Inl (SqliteError ''FOREIGN KEY constraint failed''), screened req d)"
      unfolding eq cr by simp
    have fee: "fee_usdc (txRow env req a d) =
                 fdiv (fmul (amountUsdc req) (MERCHANT_FEE_BPS env)) 10000"
      using m nm by (simp add: txRow_def feeOf_def truthy_def)
    have mg: "merchant_getById m (snd (screenAddress (recipientAddress req) d)) = None"
      using nm by (simp add: merchant_getById_def)
    have v: "\<not> merchantCheck (verdictOf req a d)
             \<and> MerchantNotFound m \<in> set (failureReasons (verdictOf req a d))"
      using m mg
      by (simp add: verdictOf_def runPermissionChecks_def merchantRecipientCheck_def truthy_def
            Let_def split_def)
    show "processPayment env req d =
              (Inl (SqliteError ''FOREIGN KEY constraint failed''), screened req d)
            \<and> tx_create (txRow env req a d) (screened req d) =
                Inl (SqliteError ''FOREIGN KEY constraint failed'')
            \<and> fee_usdc (txRow env req a d) =
                fdiv (fmul (amountUsdc req) (MERCHANT_FEE_BPS env)) 10000
            \<and> \<not> merchantCheck (verdictOf req a d)
            \<and> MerchantNotFound m \<in> set (failureReasons (verdictOf req a d))"
      using p cr fee v by blast
  qed
  have c4: "screened req d =
           (if sanctions_check (toLowerCase (recipientAddress req)) d = None
               \<and> toLowerCase (recipientAddress req) \<in> set KNOWN_SANCTIONED_ENTITIES
            then d\<lparr>sanctioned_addresses :=
                     sanctioned_addresses d @
                       [\<lparr> sa_address = toLowerCase (recipientAddress req),
                          sa_source = ''ofac-sdn'' \<rparr>]\<rparr>
            else d)"
  proof (cases "sanctions_check (toLowerCase (recipientAddress req)) d")
    case (Some r)
    then show ?thesis by (simp add: screened_def screenAddress_def Let_def)
  next
    case None
    have "toLowerCase (recipientAddress req) \<notin> set (map sa_address (sanctioned_addresses d))"
      using find_None_set [OF None [unfolded sanctions_check_def]] by auto
    then show ?thesis using None
      by (simp add: screened_def screenAddress_def sanctions_add_def Let_def)
  qed
  show ?thesis using c1 c2 c3 c4 by blast
qed

text \<open>
  Scenario A with the merchant id \<^verbatim>\<open>m9\<close>, which is not in the table: the first
  submission throws the foreign-key error and the state is as before; the same
  request after a transaction with its idempotency key was recorded gets the stored
  snapshot.
\<close>

theorem unknown_merchant_insert_fails_witness:
  "merchantId reqUnknownMerchant = Some ''m9'' \<and> ''m9'' \<noteq> []
   \<and> merchant_getById ''m9'' dbA = None
   \<and> tx_getByIdempotencyKey (idempotencyKey reqUnknownMerchant) dbA = None
   \<and> agent_getById (agentId reqUnknownMerchant) dbA = Some agentA
   \<and> uuid envConfirmed \<notin> set (map tx_id (transactions dbA))
   \<and> screened reqUnknownMerchant dbA = dbA
   \<and> processPayment envConfirmed reqUnknownMerchant dbA
        = (Inl (SqliteError ''FOREIGN KEY constraint failed''), dbA)
   \<and> fee_usdc (txRow envConfirmed reqUnknownMerchant agentA dbA) = 3 / 2
   \<and> \<not> merchantCheck (verdictOf reqUnknownMerchant agentA dbA)
   \<and> merchant_getById ''m9'' dbRecorded = None
   \<and> tx_getByIdempotencyKey (idempotencyKey reqUnknownMerchant) dbRecorded
        = Some (txRow envConfirmed reqAwait agentA dbA \<lparr> tx_status := signing \<rparr>)
   \<and> processPayment envSecond reqUnknownMerchant dbRecorded
        = (Inr (snapshotOf (txRow envConfirmed reqAwait agentA dbA \<lparr> tx_status := signing \<rparr>)),
           dbRecorded)"
proof -
  have a: "merchantId reqUnknownMerchant = Some ''m9''" "''m9'' \<noteq> []"
    by (simp_all add: scenario_defs)
  have b: "merchant_getById ''m9'' dbA = None" by (simp add: merchant_getById_def scenario_defs)
  have c: "tx_getByIdempotencyKey (idempotencyKey reqUnknownMerchant) dbA = None"
    by (simp add: tx_getByIdempotencyKey_def scenario_defs)
  have d: "agent_getById (agentId reqUnknownMerchant) dbA = Some agentA"
    by (simp add: agent_getById_def scenario_defs)
  have e: "uuid envConfirmed \<notin> set (map tx_id (transactions dbA))" by (simp add: scenario_defs)
  have s: "sanctions_check (toLowerCase (recipientAddress reqUnknownMerchant)) dbA = None
           \<and> toLowerCase (recipientAddress reqUnknownMerchant) \<notin> set KNOWN_SANCTIONED_ENTITIES"
    by (simp add: sanctions_check_def scenario_defs string_values)
  have f: "fdiv (fmul (amountUsdc reqUnknownMerchant) (MERCHANT_FEE_BPS envConfirmed)) 10000 = 3 / 2"
    by (simp add: scenario_defs double_values)
  have b': "merchant_getById ''m9'' dbRecorded = None"
    by (simp add: dbRecorded_eq merchant_getById_def scenario_defs)
  have row: "txRow envConfirmed reqAwait agentA dbA \<lparr> tx_status := signing \<rparr> =
              \<lparr>tx_id = ''t1'', agent_id = ''a1'', merchant_id = Some ''m1'',
              recipient_agent_id = None, amount_usdc = 100, fee_usdc = 3 / 2,
              net_amount_usdc = 197 / 2, tx_status = signing,
              tx_type = agent_to_merchant, tx_hash = None,
              recipient_address = ''0xbb'', memo = None,
              permission_checks =
                \<lparr>creditCheck = True, sanctionsCheck = True,
                 merchantCheck = True, kyaCheck = True, riskCheck = True,
                 allPassed = True, failureReasons = []\<rparr>,
              idempotency_key = ''k1'', settled = False\<rparr>"
    by (simp add: txRow_def feeOf_def netOf_def verdictOf_def engine_defs scenario_defs
          string_values double_values Let_def)
  have c': "tx_getByIdempotencyKey (idempotencyKey reqUnknownMerchant) dbRecorded
        = Some (txRow envConfirmed reqAwait agentA dbA \<lparr> tx_status := signing \<rparr>)"
    unfolding row by (simp add: dbRecorded_eq tx_getByIdempotencyKey_def scenario_defs)
  show ?thesis
    using unknown_merchant_insert_fails [OF a b, of envConfirmed]
      unknown_merchant_insert_fails [OF a b', of envSecond]
      a b c d e s f b' c'
    by simp
qed

text \<open>
  The claim as stated fails. The request that names the unknown merchant \<^verbatim>\<open>m9\<close>
  with a stored idempotency key does not fail. Submitted first, it fails with the
  foreign-key error of the database, after the row to insert was given the fee
  \<^verbatim>\<open>1.5\<close>, the default 150 basis points of 100. And when its recipient is on the
  list of sanctioned entities, the failed call has written the sanctions table.
\<close>

theorem unknown_merchant_counterexample:
  "merchantId reqUnknownMerchant = Some ''m9''
   \<and> merchant_getById ''m9'' dbRecorded = None
   \<and> \<not> isl (fst (processPayment envSecond reqUnknownMerchant dbRecorded))
   \<and> merchant_getById ''m9'' dbA = None
   \<and> fst (processPayment envConfirmed reqUnknownMerchant dbA)
        = Inl (SqliteError ''FOREIGN KEY constraint failed'')
   \<and> fee_usdc (txRow envConfirmed reqUnknownMerchant agentA dbA) = 3 / 2
   \<and> merchantId reqUnknownMerchantListed = Some ''m9''
   \<and> isl (fst (processPayment envConfirmed reqUnknownMerchantListed dbA))
   \<and> sanctioned_addresses (snd (processPayment envConfirmed reqUnknownMerchantListed dbA))
        = [\<lparr> sa_address = ''0x8589427373d6d84e98730d7795d8f6f8731fda16'', sa_source = ''ofac-sdn'' \<rparr>]
   \<and> snd (processPayment envConfirmed reqUnknownMerchantListed dbA) \<noteq> dbA"
proof -
  have r: "\<not> isl (fst (processPayment envSecond reqUnknownMerchant dbRecorded))"
    by (simp add: dbRecorded_eq processPayment_def tx_getByIdempotencyKey_def scenario_defs)
  have f: "fee_usdc (txRow envConfirmed reqUnknownMerchant agentA dbA) = 3 / 2"
    by (simp add: txRow_def feeOf_def truthy_def merchant_getById_def scenario_defs double_values)
  have m: "merchant_getById ''m9'' dbRecorded = None" "merchant_getById ''m9'' dbA = None"
    by (simp_all add: dbRecorded_eq merchant_getById_def scenario_defs)
  show ?thesis
    using r f m by (simp add: payUnknownMerchant payUnknownMerchantListed) (simp add: scenario_defs)
qed

subsection \<open>C4: replaying an idempotency key\<close>

text \<open>
  C4, as amended. After a first submission that recorded its transaction, any later
  submission with the same idempotency key (whatever else it carries, whatever the
  collaborators answer) returns the snapshot of the stored transaction (id, status,
  verdict, fee, net amount, and the stored hash under the key \<^verbatim>\<open>txHash\<close>) and leaves
  the whole state as it is. The response is not the first response again: when the first
  submission returned a result, the replay differs from it in that the key
  \<^verbatim>\<open>txHash\<close> is present, with the value \<^verbatim>\<open>null\<close>, and the key
  \<^verbatim>\<open>awaitingAgentSignature\<close> is absent.
\<close>

theorem replay_returns_snapshot:
  assumes first: "tx_getByIdempotencyKey (idempotencyKey req) d = None"
    and recorded: "transactions (snd (processPayment env req d)) \<noteq> transactions d"
    and same: "idempotencyKey req' = idempotencyKey req"
  shows "\<exists>t. tx_getByIdempotencyKey (idempotencyKey req) (snd (processPayment env req d)) = Some t
           \<and> processPayment env' req' (snd (processPayment env req d))
               = (Inr (snapshotOf t), snd (processPayment env req d))
           \<and> (\<forall>res. fst (processPayment env req d) = Inr res \<longrightarrow>
                 txHash res = None
                 \<and> snapshotOf t = res\<lparr>txHash := Some None, awaitingAgentSignature := None\<rparr>)"
proof (cases "agent_getById (agentId req) d")
  case None
  then show ?thesis using recorded processPayment_no_agent [OF first None, of env] by simp
next
  case (Some a)
  note eq = processPayment_new [OF first Some, of env]
  define row where "row = txRow env req a d"
  define k where "k = idempotencyKey req"
  have krow: "idempotency_key row = k" by (simp add: row_def k_def txRow_def)
  have nokey: "\<forall>x \<in> set (transactions d). \<not> idempotency_key x = k"
    using find_None_set [OF first [unfolded tx_getByIdempotencyKey_def]] by (simp add: k_def)
  show ?thesis
  proof (cases "tx_create row (screened req d)")
    case (Inl e)
    then show ?thesis using recorded unfolding eq row_def [symmetric] by simp
  next
    case (Inr d1)
    have tr1: "transactions d1 = transactions d @ [row]" using tx_create_frame [OF Inr] by simp
    have l1: "tx_getByIdempotencyKey k d1 = Some row"
      unfolding tx_getByIdempotencyKey_def tr1 using nokey krow by (simp add: find_append_last)
    show ?thesis
    proof (cases "allPassed (verdictOf req a d)")
      case False
      have r: "processPayment env req d =
                 (Inr \<lparr> transactionId = uuid env, res_status = rejected,
                        permissionChecks = verdictOf req a d,
                        feeUsdc = feeOf env req d, netAmountUsdc = netOf env req d,
                        mpcSignatureId = None, txHash = None,
                        awaitingAgentSignature = None \<rparr>, d1)"
        unfolding eq row_def [symmetric] Inr using False by simp
      have l: "tx_getByIdempotencyKey (idempotencyKey req') d1 = Some row"
        using l1 same by (simp add: k_def)
      have s: "snapshotOf row = \<lparr> transactionId = uuid env, res_status = rejected,
                        permissionChecks = verdictOf req a d,
                        feeUsdc = feeOf env req d, netAmountUsdc = netOf env req d,
                        mpcSignatureId = None, txHash = Some None,
                        awaitingAgentSignature = None \<rparr>"
        using False by (simp add: snapshotOf_def row_def txRow_def)
      show ?thesis
        unfolding r using l1 processPayment_existing [OF l, of env'] s by (simp add: k_def)
    next
      case True
      obtain res d' where rv: "processPayment_reserve env req a (uuid env) (verdictOf req a d)
                   (feeOf env req d) (netOf env req d) d1 = (res, d')"
        by (cases "processPayment_reserve env req a (uuid env) (verdictOf req a d)
                   (feeOf env req d) (netOf env req d) d1") blast
      have r: "processPayment env req d = (res, d')"
        unfolding eq row_def [symmetric] Inr using True rv by simp
      have keys: "map idempotency_key (transactions d') = map idempotency_key (transactions d1)"
        using reserve_keys [of env req a "uuid env" "verdictOf req a d" "feeOf env req d"
                "netOf env req d" d1] rv by simp
      have "k \<in> set (map idempotency_key (transactions d'))"
        unfolding keys tr1 using krow by simp
      then obtain t where t: "tx_getByIdempotencyKey k d' = Some t"
        using find_key_exists [of k "transactions d'"] unfolding tx_getByIdempotencyKey_def by blast
      have l: "tx_getByIdempotencyKey (idempotencyKey req') d' = Some t"
        using t same by (simp add: k_def)
      have third: "\<forall>x. res = Inr x \<longrightarrow>
                     txHash x = None
                     \<and> snapshotOf t = x\<lparr>txHash := Some None, awaitingAgentSignature := None\<rparr>"
      proof (intro allI impI)
        fix x assume rx: "res = Inr x"
        note ri = reserve_Inr [OF rv [unfolded rx]]
        have "tx_getByIdempotencyKey k d' =
                tx_getByIdempotencyKey k (tx_updateStatus signing (uuid env) (tx_updateStatus signing (uuid env) d1))"
          by (rule key_frame) (simp add: ri)
        then have "t = row\<lparr>tx_status := signing\<rparr>"
          using t by (simp add: key_after_updateStatus l1 row_def txRow_def)
        then show "txHash x = None
                   \<and> snapshotOf t = x\<lparr>txHash := Some None, awaitingAgentSignature := None\<rparr>"
          using ri by (simp add: snapshotOf_def row_def txRow_def)
      qed
      show ?thesis
        unfolding r using t processPayment_existing [OF l, of env'] third by (simp add: k_def)
    qed
  qed
qed

text \<open>
  Scenario A submitted without the shard and then again with it: the second call returns
  the stored \<^verbatim>\<open>signing\<close> snapshot, with \<^verbatim>\<open>txHash: null\<close> and without
  \<^verbatim>\<open>awaitingAgentSignature\<close>, and writes nothing.
\<close>

theorem replay_returns_snapshot_witness:
  "tx_getByIdempotencyKey (idempotencyKey reqAwait) dbA = None
   \<and> transactions (snd (processPayment envConfirmed reqAwait dbA)) \<noteq> transactions dbA
   \<and> idempotencyKey reqA = idempotencyKey reqAwait
   \<and> fst (processPayment envConfirmed reqAwait dbA) = Inr
        \<lparr> transactionId = ''t1'', res_status = signing,
             permissionChecks = \<lparr>creditCheck = True, sanctionsCheck = True,
                 merchantCheck = True, kyaCheck = True, riskCheck = True,
                 allPassed = True, failureReasons = []\<rparr>,
             feeUsdc = 3 / 2, netAmountUsdc = 197 / 2, mpcSignatureId = None, txHash = None,
             awaitingAgentSignature = Some True \<rparr>
   \<and> processPayment envRepay reqA (snd (processPayment envConfirmed reqAwait dbA)) =
        (Inr \<lparr> transactionId = ''t1'', res_status = signing,
             permissionChecks = \<lparr>creditCheck = True, sanctionsCheck = True,
                 merchantCheck = True, kyaCheck = True, riskCheck = True,
                 allPassed = True, failureReasons = []\<rparr>,
             feeUsdc = 3 / 2, netAmountUsdc = 197 / 2, mpcSignatureId = None,
             txHash = Some None, awaitingAgentSignature = None \<rparr>,
         snd (processPayment envConfirmed reqAwait dbA))"
proof -
  have h1: "tx_getByIdempotencyKey (idempotencyKey reqAwait) dbA = None"
    by (simp add: tx_getByIdempotencyKey_def scenario_defs)
  have h2: "transactions (snd (processPayment envConfirmed reqAwait dbA)) \<noteq> transactions dbA"
    by (simp add: payAwait) (simp add: dbA_def)
  have h3: "idempotencyKey reqA = idempotencyKey reqAwait" by (simp add: scenario_defs)
  have f: "fst (processPayment envConfirmed reqAwait dbA) = Inr
        \<lparr> transactionId = ''t1'', res_status = signing,
             permissionChecks = \<lparr>creditCheck = True, sanctionsCheck = True,
                 merchantCheck = True, kyaCheck = True, riskCheck = True,
                 allPassed = True, failureReasons = []\<rparr>,
             feeUsdc = 3 / 2, netAmountUsdc = 197 / 2, mpcSignatureId = None, txHash = None,
             awaitingAgentSignature = Some True \<rparr>"
    by (simp add: payAwait)
  show ?thesis
    using replay_returns_snapshot [OF h1 h2 h3, of envRepay] h1 h2 h3 f
    by auto
qed

text \<open>
  The claim as stated fails: the first response of the request without a shard carries
  \<^verbatim>\<open>awaitingAgentSignature: true\<close> and no \<^verbatim>\<open>txHash\<close>, the response to the same
  request submitted again carries \<^verbatim>\<open>txHash: null\<close> and no
  \<^verbatim>\<open>awaitingAgentSignature\<close>, so the two responses differ.
\<close>

theorem replay_counterexample:
  "tx_getByIdempotencyKey (idempotencyKey reqAwait) dbA = None
   \<and> fst (processPayment envConfirmed reqAwait (snd (processPayment envConfirmed reqAwait dbA)))
       \<noteq> fst (processPayment envConfirmed reqAwait dbA)
   \<and> map_sum id awaitingAgentSignature (fst (processPayment envConfirmed reqAwait dbA))
       = Inr (Some True)
   \<and> map_sum id awaitingAgentSignature
        (fst (processPayment envConfirmed reqAwait (snd (processPayment envConfirmed reqAwait dbA))))
       = Inr None
   \<and> map_sum id txHash (fst (processPayment envConfirmed reqAwait dbA)) = Inr None
   \<and> map_sum id txHash
        (fst (processPayment envConfirmed reqAwait (snd (processPayment envConfirmed reqAwait dbA))))
       = Inr (Some None)"
proof -
  have h1: "tx_getByIdempotencyKey (idempotencyKey reqAwait) dbA = None"
    by (simp add: tx_getByIdempotencyKey_def scenario_defs)
  have s: "snd (processPayment envConfirmed reqAwait dbA) = dbRecorded"
    by (simp add: dbRecorded_def)
  have r: "processPayment envConfirmed reqAwait dbRecorded =
        (Inr \<lparr> transactionId = ''t1'', res_status = signing,
             permissionChecks = \<lparr>creditCheck = True, sanctionsCheck = True,
                 merchantCheck = True, kyaCheck = True, riskCheck = True,
                 allPassed = True, failureReasons = []\<rparr>,
             feeUsdc = 3 / 2, netAmountUsdc = 197 / 2, mpcSignatureId = None,
             txHash = Some None, awaitingAgentSignature = None \<rparr>, dbRecorded)"
    by (simp add: dbRecorded_eq processPayment_def tx_getByIdempotencyKey_def scenario_defs)
  show ?thesis
    unfolding s r using h1 by (simp add: payAwait)
qed

end
